theory Spec2Isabelle
  imports Main "HOL-Library.Sublist" "HOL-Library.AList"
begin

section \<open>Regular expressions as the three source files use them\<close>

text \<open>
  The field discoverers match the page body with Go regular expressions
  (package \<^verbatim>\<open>regexp\<close>, leftmost-first semantics: the leftmost match, and among
  the matches at that position the one a backtracking search finds first, greedy
  repetitions taking as much as they can and an alternation preferring its left
  branch). The patterns of the repository use only literals, the negated one-character
  classes \<^verbatim>\<open>[^>]\<close>, \<^verbatim>\<open>[^"]\<close>, \<^verbatim>\<open>[^<]\<close> under \<^verbatim>\<open>+\<close> and \<^verbatim>\<open>*\<close>,
  capture groups, one non-capturing alternation and concatenation.

  The body is a byte string. Go decodes it as UTF-8 while matching; a negated class of
  one ASCII character accepts every rune whose encoding does not contain that byte (and
  an invalid byte, as U+FFFD of width one), and every repetition here is followed by an
  ASCII literal, so matching byte by byte finds the same matches.
\<close>

datatype regex =
    Lit string
  | Plus char
  | Star char
  | Cap nat regex
  | Alt regex regex
  | Cat regex regex

text \<open>\<open>Plus c\<close> is \<^verbatim>\<open>[^c]+\<close>, \<open>Star c\<close> is \<^verbatim>\<open>[^c]*\<close>, \<open>Cap i r\<close> is the i-th
  capture group.\<close>

type_synonym mstate = "(nat \<times> string) list \<times> string"

text \<open>A state of the search is the captures made so far and the rest of the input. The
  search returns every way to match a prefix of the input, in the order of preference of
  the backtracking search.\<close>

fun rmatch :: "regex \<Rightarrow> mstate \<Rightarrow> mstate list" where
  "rmatch (Lit l) (caps, s) =
     (if take (length l) s = l then [(caps, drop (length l) s)] else [])"
| "rmatch (Plus c) (caps, s) =
     map (\<lambda>k. (caps, drop k s)) (rev [1 ..< Suc (length (takeWhile (\<lambda>x. x \<noteq> c) s))])"
| "rmatch (Star c) (caps, s) =
     map (\<lambda>k. (caps, drop k s)) (rev [0 ..< Suc (length (takeWhile (\<lambda>x. x \<noteq> c) s))])"
| "rmatch (Cap i r) (caps, s) =
     map (\<lambda>(caps', rest). ((i, take (length s - length rest) s) # caps', rest))
       (rmatch r (caps, s))"
| "rmatch (Alt r1 r2) st = rmatch r1 st @ rmatch r2 st"
| "rmatch (Cat r1 r2) st = concat (map (rmatch r2) (rmatch r1 st))"

fun ngroups :: "regex \<Rightarrow> nat" where
  "ngroups (Lit l) = 0"
| "ngroups (Plus c) = 0"
| "ngroups (Star c) = 0"
| "ngroups (Cap i r) = max i (ngroups r)"
| "ngroups (Alt r1 r2) = max (ngroups r1) (ngroups r2)"
| "ngroups (Cat r1 r2) = max (ngroups r1) (ngroups r2)"

definition cat :: "regex list \<Rightarrow> regex" where
  "cat rs = foldr Cat rs (Lit [])"

text \<open>A submatch is what Go returns for one match: the text of the whole match, then the
  text of each capture group, empty for a group that took no part in the match.\<close>

definition submatch :: "regex \<Rightarrow> string \<Rightarrow> mstate \<Rightarrow> string list" where
  "submatch re s st =
     take (length s - length (snd st)) s #
     map (\<lambda>i. case map_of (fst st) i of Some g \<Rightarrow> g | None \<Rightarrow> []) [1 ..< Suc (ngroups re)]"

text \<open>The first match that starts at the head of the input, if any.\<close>

definition matchHere :: "regex \<Rightarrow> string \<Rightarrow> (string list \<times> string) option" where
  "matchHere re s =
     (case rmatch re ([], s) of
        [] \<Rightarrow> None
      | st # _ \<Rightarrow> Some (submatch re s st, snd st))"

text \<open>The leftmost match: the submatch and the input after the match.\<close>

fun findFrom :: "regex \<Rightarrow> string \<Rightarrow> (string list \<times> string) option" where
  "findFrom re [] = matchHere re []"
| "findFrom re (c # s) =
     (case matchHere re (c # s) of
        Some r \<Rightarrow> Some r
      | None \<Rightarrow> findFrom re s)"

text \<open>\<^verbatim>\<open>FindSubmatch\<close>: the leftmost match, or nil (the empty list).\<close>

definition FindSubmatch :: "regex \<Rightarrow> string \<Rightarrow> string list" where
  "FindSubmatch re b = (case findFrom re b of None \<Rightarrow> [] | Some (sub, rest) \<Rightarrow> sub)"

text \<open>\<^verbatim>\<open>FindAllSubmatch(b, -1)\<close>: the successive leftmost matches, each search starting
  where the previous match ended. After an empty match Go steps one rune forward; no
  pattern of the repository matches the empty string (lemmas \<open>patterns_consume\<close> and
  \<open>FindAllSubmatch_consuming\<close> below), so that clause is never taken here.\<close>

function FindAllSubmatch :: "regex \<Rightarrow> string \<Rightarrow> string list list" where
  "FindAllSubmatch re b =
     (case findFrom re b of
        None \<Rightarrow> []
      | Some (sub, rest) \<Rightarrow>
          if length rest < length b then sub # FindAllSubmatch re rest
          else (case b of [] \<Rightarrow> [sub] | c # b' \<Rightarrow> sub # FindAllSubmatch re b'))"
  by pat_completeness auto
termination
  by (relation "measure (\<lambda>(re, b). length b)") auto

declare FindAllSubmatch.simps [simp del]

subsection \<open>The patterns\<close>

text \<open>\<^verbatim>\<open>(?:id="([^"]+)"[^>]+name="([^"]+)"|name="([^"]+)"[^>]+id="([^"]+)")\<close>\<close>

definition idNamePair :: regex where
  \<open>idNamePair =
     Alt (cat [Lit ''id="'', Cap 1 (Plus CHR ''"''), Lit ''"'', Plus CHR ''>'',
               Lit ''name="'', Cap 2 (Plus CHR ''"''), Lit ''"''])
         (cat [Lit ''name="'', Cap 3 (Plus CHR ''"''), Lit ''"'', Plus CHR ''>'',
               Lit ''id="'', Cap 4 (Plus CHR ''"''), Lit ''"''])\<close>

text \<open>\<^verbatim>\<open>(?:id="([^"]+)"|name="([^"]+)")\<close>\<close>

definition idOrName :: regex where
  \<open>idOrName =
     Alt (cat [Lit ''id="'', Cap 1 (Plus CHR ''"''), Lit ''"''])
         (cat [Lit ''name="'', Cap 2 (Plus CHR ''"''), Lit ''"''])\<close>

text \<open>\<^verbatim>\<open><input[^>]+type="hidden"[^>]+(?:...)[^>]*value=""[^>]*>\<close>
  (the same pattern in \<^verbatim>\<open>parseDeleteFormFields\<close> and \<^verbatim>\<open>parseImportFormFields\<close>)\<close>

definition hiddenRegex :: regex where
  \<open>hiddenRegex =
     cat [Lit ''<input'', Plus CHR ''>'', Lit ''type="hidden"'', Plus CHR ''>'', idNamePair,
          Star CHR ''>'', Lit ''value=""'', Star CHR ''>'', Lit ''>'']\<close>

text \<open>\<^verbatim>\<open><input[^>]+type="file"[^>]+(?:id="([^"]+)"|name="([^"]+)")[^>]*>\<close>\<close>

definition fileRegex :: regex where
  \<open>fileRegex =
     cat [Lit ''<input'', Plus CHR ''>'', Lit ''type="file"'', Plus CHR ''>'', idOrName,
          Star CHR ''>'', Lit ''>'']\<close>

text \<open>\<^verbatim>\<open><input[^>]+type="password"[^>]+(?:id="([^"]+)"|name="([^"]+)")[^>]*>\<close>\<close>

definition passwordRegex :: regex where
  \<open>passwordRegex =
     cat [Lit ''<input'', Plus CHR ''>'', Lit ''type="password"'', Plus CHR ''>'', idOrName,
          Star CHR ''>'', Lit ''>'']\<close>

text \<open>\<^verbatim>\<open><select[^>]+(?:...)[^>]*>\<close>\<close>

definition selectRegex :: regex where
  \<open>selectRegex = cat [Lit ''<select'', Plus CHR ''>'', idNamePair, Star CHR ''>'', Lit ''>'']\<close>

text \<open>\<^verbatim>\<open><input[^>]+type="checkbox"[^>]+(?:...)[^>]+value="1"[^>]*>[^<]*HTTPS\<close>\<close>

definition httpsCheckboxRegex :: regex where
  \<open>httpsCheckboxRegex =
     cat [Lit ''<input'', Plus CHR ''>'', Lit ''type="checkbox"'', Plus CHR ''>'', idNamePair,
          Plus CHR ''>'', Lit ''value="1"'', Star CHR ''>'', Lit ''>'', Star CHR ''<'',
          Lit ''HTTPS'']\<close>


section \<open>The field discoverers\<close>

text \<open>The three discoverers read a submatch the same way: the first named group if it
  is not empty, else the second named group if it is not empty; else the field is not
  assigned and keeps the empty string it has in the fresh struct.\<close>

definition pick :: "string list \<Rightarrow> nat \<Rightarrow> nat \<Rightarrow> string" where
  "pick match i j =
     (if length (match ! i) > 0 then match ! i
      else if length (match ! j) > 0 then match ! j
      else [])"

subsection \<open>\<^verbatim>\<open>http_settings.go\<close>\<close>

datatype error =
    ErrCertDeleteInvalidID
  | ErrNew string
  | ErrStatus string int
  | ErrWrap string error
  | ErrCollab string

text \<open>\<open>ErrCertDeleteInvalidID\<close> is the package variable \<^verbatim>\<open>errCertDeleteInvalidID\<close>;
  \<open>ErrNew\<close> is an \<^verbatim>\<open>errors.New\<close> of these files, \<open>ErrStatus\<close> a
  \<^verbatim>\<open>fmt.Errorf("... (status code %d)", code)\<close>, \<open>ErrWrap\<close> a
  \<^verbatim>\<open>fmt.Errorf("... (%w)", err)\<close>, and \<open>ErrCollab\<close> an error that a collaborator
  returned (the transport, the URL parser, \<^verbatim>\<open>getCertIDs\<close>, the token extractor, the
  PKCS12 conversion) and the orchestrator passes on unchanged.\<close>

text \<open>In the definitions below \<open>flds\<close> is the variable \<^verbatim>\<open>fields\<close> of the source.\<close>

record httpSettingsFormFields =
  certSelectField :: string
  httpsWebField :: string
  httpsIppField :: string

text \<open>The loop over the HTTPS matches, with its index.\<close>

fun httpsLoop :: "nat \<Rightarrow> string list list \<Rightarrow> httpSettingsFormFields \<Rightarrow> httpSettingsFormFields" where
  "httpsLoop i [] flds = flds"
| "httpsLoop i (match # matches) flds =
     (let fieldName = pick match 1 3 in
      httpsLoop (Suc i) matches
        (if fieldName \<noteq> [] then
           (if i = 0 then flds\<lparr>httpsWebField := fieldName\<rparr>
            else if i = 1 then flds\<lparr>httpsIppField := fieldName\<rparr>
            else flds)
         else flds))"

definition parseHttpSettingsFormFields :: "string \<Rightarrow> error + httpSettingsFormFields" where
  "parseHttpSettingsFormFields bodyBytes =
     (let flds = \<lparr>certSelectField = [], httpsWebField = [], httpsIppField = []\<rparr>;
          selectMatch = FindSubmatch selectRegex bodyBytes;
          flds = (if length selectMatch \<ge> 2
                    then flds\<lparr>certSelectField := pick selectMatch 1 3\<rparr>
                    else flds);
          httpsMatches = FindAllSubmatch httpsCheckboxRegex bodyBytes;
          flds = httpsLoop 0 httpsMatches flds
      in if certSelectField flds = []
         then Inl (ErrNew ''printer: http settings: failed to find certificate select field name'')
         else Inr flds)"

subsection \<open>\<^verbatim>\<open>cert_delete.go\<close>\<close>

record deleteFormFields =
  hiddenField1 :: string
  hiddenField2 :: string

text \<open>The loop that collects the names of the hidden fields, skipping the known ones; the
  two pages differ in the last known name.\<close>

fun hiddenLoop :: "string \<Rightarrow> string list list \<Rightarrow> string list \<Rightarrow> string list" where
  "hiddenLoop known5 [] hiddenFields = hiddenFields"
| "hiddenLoop known5 (match # matches) hiddenFields =
     (let fieldName = pick match 1 3 in
      hiddenLoop known5 matches
        (if fieldName \<noteq> [] \<and> fieldName \<noteq> ''CSRFToken'' \<and> fieldName \<noteq> ''CSRFToken1'' \<and>
            fieldName \<noteq> ''pageid'' \<and> fieldName \<noteq> ''hidden_certificate_process_control'' \<and>
            fieldName \<noteq> known5
         then hiddenFields @ [fieldName]
         else hiddenFields))"

definition parseDeleteFormFields :: "string \<Rightarrow> error + deleteFormFields" where
  "parseDeleteFormFields bodyBytes =
     (let flds = \<lparr>hiddenField1 = [], hiddenField2 = []\<rparr>;
          hiddenMatches = FindAllSubmatch hiddenRegex bodyBytes;
          hiddenFields = hiddenLoop ''hidden_certificate_idx'' hiddenMatches [];
          flds = (if length hiddenFields \<ge> 2
                    then flds\<lparr>hiddenField1 := hiddenFields ! 0, hiddenField2 := hiddenFields ! 1\<rparr>
                    else flds)
      in Inr flds)"

subsection \<open>The import page\<close>

text \<open>The Go struct \<^verbatim>\<open>importFormFields\<close> names its first two fields \<^verbatim>\<open>hiddenField1\<close>
  and \<^verbatim>\<open>hiddenField2\<close> as \<^verbatim>\<open>deleteFormFields\<close> does; here they carry the prefix
  \<open>imp\<close>.\<close>

record importFormFields =
  impHiddenField1 :: string
  impHiddenField2 :: string
  fileField :: string
  passwordField :: string

definition parseImportFormFields :: "string \<Rightarrow> error + importFormFields" where
  "parseImportFormFields bodyBytes =
     (let flds = \<lparr>impHiddenField1 = [], impHiddenField2 = [], fileField = [], passwordField = []\<rparr>;
          hiddenMatches = FindAllSubmatch hiddenRegex bodyBytes;
          hiddenFields = hiddenLoop ''hidden_cert_import_password'' hiddenMatches [];
          flds = (if length hiddenFields \<ge> 2
                    then flds\<lparr>impHiddenField1 := hiddenFields ! 0, impHiddenField2 := hiddenFields ! 1\<rparr>
                    else flds);
          fileMatch = FindSubmatch fileRegex bodyBytes;
          flds = (if length fileMatch \<ge> 2 then flds\<lparr>fileField := pick fileMatch 1 2\<rparr> else flds);
          passwordMatch = FindSubmatch passwordRegex bodyBytes;
          flds = (if length passwordMatch \<ge> 2 then flds\<lparr>passwordField := pick passwordMatch 1 2\<rparr>
                  else flds)
      in if fileField flds = []
         then Inl (ErrNew ''printer: upload: failed to find file input field name'')
         else if passwordField flds = []
         then Inl (ErrNew ''printer: upload: failed to find password input field name'')
         else Inr flds)"


section \<open>The printer and the world around an orchestrator\<close>

datatype meth = GET | POST

datatype part = Field string string | FormFile string string string

text \<open>\<open>Field name value\<close> is a \<^verbatim>\<open>WriteField\<close> of the multipart writer,
  \<open>FormFile name filename content\<close> a \<^verbatim>\<open>CreateFormFile\<close> with the bytes copied into
  it. A \<^verbatim>\<open>url.Values\<close> is an association list from a key to its value, \<^verbatim>\<open>Set\<close>
  replacing the value of a key or adding the key. The request keeps the values; the bytes
  on the wire are their encoding.\<close>

datatype payload =
    NoBody
  | UrlEncoded "(string \<times> string) list"
  | Multipart "part list"

definition valuesSet :: "string \<Rightarrow> string \<Rightarrow> (string \<times> string) list \<Rightarrow> (string \<times> string) list" where
  "valuesSet k v data = AList.update k v data"

record url =
  host :: string
  path :: string
  rawQuery :: "(string \<times> string) list"

record request =
  reqMethod :: meth
  reqUrl :: url
  contentType :: string
  reqBody :: payload

record response =
  statusCode :: int
  readAll :: "error + string"

text \<open>\<open>readAll\<close> is what \<^verbatim>\<open>io.ReadAll(resp.Body)\<close> returns for the response.\<close>

datatype event =
    EvGetCertIDs "error + string list"
  | EvDo request "error + response"
  | EvSleep nat

text \<open>Every interaction of an orchestrator with the outside is an event: a call of
  \<^verbatim>\<open>p.getCertIDs()\<close> with what it returned, a call of \<^verbatim>\<open>p.httpClient.Do(req)\<close> with the
  request and what it returned, a \<^verbatim>\<open>time.Sleep\<close> with its seconds.\<close>

record 'd world =
  dev :: 'd
  trace :: "event list"

text \<open>The printer \<^verbatim>\<open>p\<close> and the collaborators whose code is not in these files. The
  device behind the HTTP client has a state of its own, of type \<open>'d\<close>, that a request
  or a listing of the certificate IDs may change. \<^verbatim>\<open>url.ParseRequestURI\<close> and
  \<^verbatim>\<open>http.NewRequest\<close> are the standard library's. The first returns an error or the
  parsed URL. The second is given the string \<^verbatim>\<open>u.String()\<close> and parses it again: it
  returns an error or a request whose URL is the result of that parse, which need not be
  \<open>u\<close> itself. \<open>NewRequestURL\<close> is that error or that URL.\<close>

record 'd printer =
  baseUrl :: string
  ParseRequestURI :: "string \<Rightarrow> error + url"
  NewRequestURL :: "meth \<Rightarrow> url \<Rightarrow> error + url"
  httpClientDo :: "request \<Rightarrow> 'd \<Rightarrow> (error + response) \<times> 'd"
  getCertIDs :: "'d \<Rightarrow> (error + string list) \<times> 'd"
  parseBodyForCSRFToken :: "string \<Rightarrow> error + string"
  makeModernPfx :: "string \<Rightarrow> string \<Rightarrow> string \<Rightarrow> error + string"

type_synonym ('d, 'a) io = "'d world \<Rightarrow> (error + 'a) \<times> 'd world"

definition succeed :: "'a \<Rightarrow> ('d, 'a) io" where
  "succeed x w = (Inr x, w)"

definition failWith :: "error \<Rightarrow> ('d, 'a) io" where
  "failWith e w = (Inl e, w)"

definition fromResult :: "error + 'a \<Rightarrow> ('d, 'a) io" where
  "fromResult r w = (r, w)"

text \<open>\<open>andThen m f\<close>: run \<open>m\<close>; on an error return it (\<^verbatim>\<open>if err != nil { return err }\<close>),
  else go on with \<open>f\<close>.\<close>

definition andThen :: "('d, 'a) io \<Rightarrow> ('a \<Rightarrow> ('d, 'b) io) \<Rightarrow> ('d, 'b) io" where
  "andThen m f w = (case m w of (Inl e, w') \<Rightarrow> (Inl e, w') | (Inr x, w') \<Rightarrow> f x w')"

definition callGetCertIDs :: "'d printer \<Rightarrow> ('d, string list) io" where
  "callGetCertIDs p w =
     (case getCertIDs p (dev w) of
        (r, d') \<Rightarrow> (r, \<lparr>dev = d', trace = trace w @ [EvGetCertIDs r]\<rparr>))"

definition callDo :: "'d printer \<Rightarrow> request \<Rightarrow> ('d, response) io" where
  "callDo p req w =
     (case httpClientDo p req (dev w) of
        (r, d') \<Rightarrow> (r, \<lparr>dev = d', trace = trace w @ [EvDo req r]\<rparr>))"

definition sleep :: "nat \<Rightarrow> ('d, unit) io" where
  "sleep n w = (Inr (), w\<lparr>trace := trace w @ [EvSleep n]\<rparr>)"

text \<open>\<^verbatim>\<open>http.NewRequest(m, u.String(), body)\<close>, the header empty at first.\<close>

definition NewRequest :: "'d printer \<Rightarrow> meth \<Rightarrow> url \<Rightarrow> payload \<Rightarrow> error + request" where
  "NewRequest p m u b =
     (case NewRequestURL p m u of
        Inl e \<Rightarrow> Inl e
      | Inr u' \<Rightarrow> Inr \<lparr>reqMethod = m, reqUrl = u', contentType = [], reqBody = b\<rparr>)"

text \<open>The linear search \<^verbatim>\<open>for _, existingID := range existingIDs\<close> with its
  \<^verbatim>\<open>break\<close>; \<open>cid\<close> is the parameter \<^verbatim>\<open>id\<close> of the source.\<close>

fun containsID :: "string list \<Rightarrow> string \<Rightarrow> bool" where
  "containsID [] cid = False"
| "containsID (existingID # existingIDs) cid =
     (if existingID = cid then True else containsID existingIDs cid)"


section \<open>The orchestrators\<close>

text \<open>Before each request the three orchestrators repeat the same lines: parse the base
  URL and set the path (\<^verbatim>\<open>get url & set path\<close>), make the request, adjust it (the query
  or the header \<^verbatim>\<open>Content-Type\<close>), and do it (\<^verbatim>\<open>make and do request\<close>).\<close>

definition doRequest ::
    "'d printer \<Rightarrow> meth \<Rightarrow> string \<Rightarrow> payload \<Rightarrow> (request \<Rightarrow> request) \<Rightarrow> ('d, response) io" where
  "doRequest p m urlPath body adjust =
     andThen (fromResult (ParseRequestURI p (baseUrl p))) (\<lambda>u.
     andThen (fromResult (NewRequest p m (u\<lparr>path := urlPath\<rparr>) body)) (\<lambda>req.
     callDo p (adjust req)))"

definition setContentType :: "string \<Rightarrow> request \<Rightarrow> request" where
  "setContentType t req = req\<lparr>contentType := t\<rparr>"

definition setQuery :: "string \<Rightarrow> string \<Rightarrow> request \<Rightarrow> request" where
  "setQuery k v req = req\<lparr>reqUrl := (reqUrl req)\<lparr>rawQuery := valuesSet k v (rawQuery (reqUrl req))\<rparr>\<rparr>"

subsection \<open>\<^verbatim>\<open>DeleteCert\<close>\<close>

definition urlCertDelete :: string where
  "urlCertDelete = ''/net/security/certificate/delete.html''"

definition errStillExists :: error where
  "errStillExists = ErrNew ''printer: failed to delete cert (still exists)''"

text \<open>The form values of one of the two delete submissions.\<close>

definition deleteForm :: "string \<Rightarrow> deleteFormFields \<Rightarrow> string \<Rightarrow> string \<Rightarrow> (string \<times> string) list" where
  "deleteForm csrfToken formFields control cid =
     (let data = [];
          data = valuesSet ''pageid'' ''383'' data;
          data = valuesSet ''CSRFToken'' csrfToken data;
          data = (if hiddenField1 formFields \<noteq> [] then valuesSet (hiddenField1 formFields) [] data else data);
          data = (if hiddenField2 formFields \<noteq> [] then valuesSet (hiddenField2 formFields) [] data else data);
          data = valuesSet ''hidden_certificate_process_control'' control data;
          data = valuesSet ''hidden_certificate_idx'' cid data
      in data)"

text \<open>The lines from \<^verbatim>\<open>find CSRFToken\<close> to the \<^verbatim>\<open>Do\<close> of the POST, which the function
  has twice: for the first delete form (control 1) and for the confirmation (control 2).\<close>

definition postDeleteForm :: "'d printer \<Rightarrow> string \<Rightarrow> string \<Rightarrow> string \<Rightarrow> ('d, response) io" where
  "postDeleteForm p cid control bodyBytes =
     andThen (fromResult (parseBodyForCSRFToken p bodyBytes)) (\<lambda>csrfToken.
     andThen (fromResult (parseDeleteFormFields bodyBytes)) (\<lambda>formFields.
     doRequest p POST urlCertDelete (UrlEncoded (deleteForm csrfToken formFields control cid))
       (setContentType ''application/x-www-form-urlencoded'')))"

definition DeleteCert :: "'d printer \<Rightarrow> string \<Rightarrow> ('d, unit) io" where
  "DeleteCert p cid =
    (if length cid \<le> 0 \<or> cid = ''0'' then failWith ErrCertDeleteInvalidID
     else
      andThen (callGetCertIDs p) (\<lambda>existingIDs.
      if \<not> containsID existingIDs cid then failWith ErrCertDeleteInvalidID
      else
      andThen (doRequest p GET urlCertDelete NoBody (setQuery ''idx'' cid)) (\<lambda>resp.
      andThen (fromResult (readAll resp)) (\<lambda>bodyBytes.
      if statusCode resp \<noteq> 200
      then failWith (ErrStatus ''printer: get of delete page failed'' (statusCode resp))
      else
      andThen (postDeleteForm p cid ''1'' bodyBytes) (\<lambda>resp.
      andThen (fromResult (readAll resp)) (\<lambda>bodyBytes.
      if statusCode resp \<noteq> 200
      then failWith (ErrStatus ''printer: get failed'' (statusCode resp))
      else
      andThen (postDeleteForm p cid ''2'' bodyBytes) (\<lambda>resp.
      andThen (sleep 10) (\<lambda>_.
      andThen (callGetCertIDs p) (\<lambda>existingIDs.
      if containsID existingIDs cid then failWith errStillExists
      else succeed ())))))))))"

subsection \<open>\<^verbatim>\<open>SetActiveCert\<close>\<close>

definition urlHttpCertServerSettings :: string where
  "urlHttpCertServerSettings = ''net/net/certificate/http.html''"

definition getHttpSettings :: "'d printer \<Rightarrow> ('d, string) io" where
  "getHttpSettings p =
     andThen (doRequest p GET urlHttpCertServerSettings NoBody (\<lambda>req. req)) (\<lambda>resp.
     andThen (fromResult (readAll resp)) (\<lambda>bodyBytes.
     if statusCode resp \<noteq> 200
     then failWith (ErrStatus ''printer: get of http settings page failed'' (statusCode resp))
     else succeed bodyBytes))"

definition activateForm :: "string \<Rightarrow> httpSettingsFormFields \<Rightarrow> string \<Rightarrow> (string \<times> string) list" where
  "activateForm csrfToken formFields cid =
     (let data = [];
          data = valuesSet ''pageid'' ''326'' data;
          data = valuesSet ''CSRFToken'' csrfToken data;
          data = valuesSet (certSelectField formFields) cid data;
          data = (if httpsWebField formFields \<noteq> [] then valuesSet (httpsWebField formFields) ''1'' data else data);
          data = (if httpsIppField formFields \<noteq> [] then valuesSet (httpsIppField formFields) ''1'' data else data)
      in data)"

definition confirmForm :: "string \<Rightarrow> (string \<times> string) list" where
  "confirmForm csrfToken =
     (let data = [];
          data = valuesSet ''pageid'' ''326'' data;
          data = valuesSet ''CSRFToken'' csrfToken data;
          data = valuesSet ''http_page_mode'' ''5'' data
      in data)"

definition errPostSetActive :: error where
  "errPostSetActive = ErrNew ''printer: failed to post set active cert form''"

definition SetActiveCert :: "'d printer \<Rightarrow> string \<Rightarrow> ('d, unit) io" where
  "SetActiveCert p cid =
     andThen (getHttpSettings p) (\<lambda>bodyBytes.
     andThen (fromResult (parseBodyForCSRFToken p bodyBytes)) (\<lambda>csrfToken.
     andThen (fromResult (parseHttpSettingsFormFields bodyBytes)) (\<lambda>formFields.
     andThen (doRequest p POST urlHttpCertServerSettings
                (UrlEncoded (activateForm csrfToken formFields cid))
                (setContentType ''application/x-www-form-urlencoded'')) (\<lambda>resp.
     andThen (fromResult (readAll resp)) (\<lambda>bodyBytes.
     if statusCode resp \<noteq> 200 then failWith errPostSetActive
     else
     andThen (fromResult (parseBodyForCSRFToken p bodyBytes)) (\<lambda>csrfToken.
     andThen (doRequest p POST urlHttpCertServerSettings (UrlEncoded (confirmForm csrfToken))
                (setContentType ''application/x-www-form-urlencoded'')) (\<lambda>resp.
     if statusCode resp \<noteq> 200 then failWith errPostSetActive
     else succeed ())))))))"

subsection \<open>\<^verbatim>\<open>UploadNewCert\<close>\<close>

definition urlCertImport :: string where
  "urlCertImport = ''/net/security/certificate/import.html''"

definition errDeduce :: error where
  "errDeduce = ErrNew ''printer: upload: failed to deduce new cert's id''"

text \<open>The multipart form, part after part. The writer writes into a buffer in memory,
  where a write does not fail, so the error returns after each \<^verbatim>\<open>WriteField\<close> are not
  branches of the model. The content type of the request is written without the boundary
  that the writer chose.\<close>

definition importForm :: "string \<Rightarrow> importFormFields \<Rightarrow> string \<Rightarrow> part list" where
  "importForm csrfToken formFields p12 =
     [Field ''pageid'' ''390'', Field ''CSRFToken'' csrfToken] @
     (if impHiddenField1 formFields \<noteq> [] then [Field (impHiddenField1 formFields) []] else []) @
     (if impHiddenField2 formFields \<noteq> [] then [Field (impHiddenField2 formFields) []] else []) @
     [Field ''hidden_certificate_process_control'' ''1'',
      FormFile (fileField formFields) ''certkey.p12'' p12,
      Field (passwordField formFields) [],
      Field ''hidden_cert_import_password'' []]"

text \<open>The loop over the new list: \<open>newId\<close> and \<open>countNew\<close> after it. The counter is a
  Go \<^verbatim>\<open>int\<close> that counts elements of a list in memory, so it does not wrap.\<close>

fun newIdLoop :: "string list \<Rightarrow> string list \<Rightarrow> string \<times> nat \<Rightarrow> string \<times> nat" where
  "newIdLoop origCertIDs [] (newId, countNew) = (newId, countNew)"
| "newIdLoop origCertIDs (x # newCertIDs) (newId, countNew) =
     (let found = containsID origCertIDs x in
      newIdLoop origCertIDs newCertIDs
        (if \<not> found then (x, countNew + 1) else (newId, countNew)))"

text \<open>The end of the function, from the loop to the return.\<close>

definition deduceNewId :: "string list \<Rightarrow> string list \<Rightarrow> error + string" where
  "deduceNewId origCertIDs newCertIDs =
     (case newIdLoop origCertIDs newCertIDs ([], 0) of
        (newId, countNew) \<Rightarrow> if countNew > 1 then Inl errDeduce else Inr newId)"

definition UploadNewCert :: "'d printer \<Rightarrow> string \<Rightarrow> string \<Rightarrow> ('d, string) io" where
  "UploadNewCert p keyPem certPem =
     andThen (fromResult (case makeModernPfx p keyPem certPem [] of
                            Inl err \<Rightarrow> Inl (ErrWrap ''printer: failed to make p12 file'' err)
                          | Inr p12 \<Rightarrow> Inr p12)) (\<lambda>p12.
     andThen (callGetCertIDs p) (\<lambda>origCertIDs.
     andThen (doRequest p GET urlCertImport NoBody (\<lambda>req. req)) (\<lambda>resp.
     andThen (fromResult (readAll resp)) (\<lambda>bodyBytes.
     if statusCode resp \<noteq> 200
     then failWith (ErrStatus ''printer: get of certificate import page failed'' (statusCode resp))
     else
     andThen (fromResult (parseBodyForCSRFToken p bodyBytes)) (\<lambda>csrfToken.
     andThen (fromResult (parseImportFormFields bodyBytes)) (\<lambda>formFields.
     andThen (doRequest p POST urlCertImport (Multipart (importForm csrfToken formFields p12))
                (setContentType ''multipart/form-data'')) (\<lambda>resp.
     if statusCode resp \<noteq> 200
     then failWith (ErrStatus ''printer: post of new certificate failed'' (statusCode resp))
     else
     andThen (sleep 10) (\<lambda>_.
     andThen (callGetCertIDs p) (\<lambda>newCertIDs.
     fromResult (deduceNewId origCertIDs newCertIDs))))))))))"


section \<open>What a match says about the text and the groups\<close>

text \<open>The least number of bytes a match of the pattern takes.\<close>

fun minlen :: "regex \<Rightarrow> nat" where
  "minlen (Lit l) = length l"
| "minlen (Plus c) = 1"
| "minlen (Star c) = 0"
| "minlen (Cap i r) = minlen r"
| "minlen (Alt r1 r2) = min (minlen r1) (minlen r2)"
| "minlen (Cat r1 r2) = minlen r1 + minlen r2"

text \<open>The literals that every match of the pattern contains.\<close>

fun mandatory :: "regex \<Rightarrow> string list" where
  "mandatory (Lit l) = [l]"
| "mandatory (Plus c) = []"
| "mandatory (Star c) = []"
| "mandatory (Cap i r) = mandatory r"
| "mandatory (Alt r1 r2) = filter (\<lambda>l. l \<in> set (mandatory r2)) (mandatory r1)"
| "mandatory (Cat r1 r2) = mandatory r1 @ mandatory r2"

text \<open>The capture groups of the pattern.\<close>

fun groups :: "regex \<Rightarrow> nat list" where
  "groups (Lit l) = []"
| "groups (Plus c) = []"
| "groups (Star c) = []"
| "groups (Cap i r) = i # groups r"
| "groups (Alt r1 r2) = groups r1 @ groups r2"
| "groups (Cat r1 r2) = groups r1 @ groups r2"

text \<open>\<open>isMatch re sub\<close>: the submatch \<open>sub\<close> is that of a match of \<open>re\<close> somewhere.\<close>

definition isMatch :: "regex \<Rightarrow> string list \<Rightarrow> bool" where
  "isMatch re sub = (\<exists>s st. st \<in> set (rmatch re ([], s)) \<and> sub = submatch re s st)"

text \<open>\<open>named i j caps\<close>: group \<open>i\<close> or group \<open>j\<close> holds a name that is not empty.\<close>

definition named :: "nat \<Rightarrow> nat \<Rightarrow> (nat \<times> string) list \<Rightarrow> bool" where
  "named i j caps =
     ((\<exists>g. g \<noteq> [] \<and> map_of caps i = Some g) \<or> (\<exists>g. g \<noteq> [] \<and> map_of caps j = Some g))"

section \<open>Reading a trace\<close>

text \<open>The requests of a trace that were sent with POST, in order.\<close>

fun posts :: "event list \<Rightarrow> request list" where
  "posts [] = []"
| "posts (EvDo req r # evs) = (if reqMethod req = POST then req # posts evs else posts evs)"
| "posts (EvGetCertIDs r # evs) = posts evs"
| "posts (EvSleep n # evs) = posts evs"

text \<open>A run starts in a world with an empty trace.\<close>

definition start :: "'d \<Rightarrow> 'd world" where
  "start d = \<lparr>dev = d, trace = []\<rparr>"

section \<open>A printer to run the orchestrators on\<close>

text \<open>For a URL with a host, \<^verbatim>\<open>u.String()\<close> puts a slash between the host and a path
  that does not begin with one, so that the URL parsed from the string has the path with a
  leading slash: the settings page, whose constant is \<^verbatim>\<open>net/net/certificate/http.html\<close>,
  is requested at \<^verbatim>\<open>/net/net/certificate/http.html\<close>.\<close>

definition parsedString :: "url \<Rightarrow> url" where
  "parsedString u =
     (if host u \<noteq> [] \<and> path u \<noteq> [] \<and> hd (path u) \<noteq> CHR ''/''
      then u\<lparr>path := CHR ''/'' # path u\<rparr> else u)"

text \<open>The state of this device is the list of its certificate IDs. It answers every
  request with status 200 and the same page, and a POST applies \<open>effect\<close> to the list;
  \<^verbatim>\<open>getCertIDs\<close> reports the list, the token extractor finds the token \<open>tok\<close> in every
  page, and the PKCS12 conversion joins its two inputs. Its base URL has a host, and a
  request is made for the URL parsed from the string as above.\<close>

definition testPrinter :: "string \<Rightarrow> (string list \<Rightarrow> string list) \<Rightarrow> string list printer" where
  "testPrinter page effect =
     \<lparr>baseUrl = ''http://printer'',
      ParseRequestURI = (\<lambda>s. Inr \<lparr>host = s, path = [], rawQuery = []\<rparr>),
      NewRequestURL = (\<lambda>m u. Inr (parsedString u)),
      httpClientDo = (\<lambda>req d. (Inr \<lparr>statusCode = 200, readAll = Inr page\<rparr>,
                                  if reqMethod req = POST then effect d else d)),
      getCertIDs = (\<lambda>d. (Inr d, d)),
      parseBodyForCSRFToken = (\<lambda>b. Inr ''tok''),
      makeModernPfx = (\<lambda>k c pw. Inr (k @ c))\<rparr>"

definition deletePage :: string where
  \<open>deletePage = ''<input type="hidden" id="Bb0a" name="Bb0a" value="" /><input type="hidden" id="Bb1c" name="Bb1c" value="" />''\<close>

definition deletePage1 :: string where
  \<open>deletePage1 = ''<input type="hidden" id="Bb0a" name="Bb0a" value="" />''\<close>

definition importPage :: string where
  \<open>importPage = ''<input type="hidden" id="Bb0a" name="Bb0a" value="" /><input type="file" id="Ba40" name="Ba40" /><input type="password" id="Ba41" name="Ba41" />''\<close>

definition importPageNoFile :: string where
  \<open>importPageNoFile = ''<input type="hidden" id="Bb0a" name="Bb0a" value="" /><input type="password" id="Ba41" name="Ba41" />''\<close>

definition settingsPage :: string where
  \<open>settingsPage = ''<select id="Bb23" name="Bb23"><input type="checkbox" id="Ba8c" name="Ba8c" value="1" />HTTPS<input type="checkbox" id="Ba9e" name="Ba9e" value="1" />HTTPS''\<close>


definition settingsPageNoSelect :: string where
  \<open>settingsPageNoSelect = ''<input type="checkbox" id="Ba8c" name="Ba8c" value="1" />HTTPS''\<close>
text \<open>A settings page whose first HTTPS checkbox bears the name of the certificate selector.\<close>

definition settingsPageSameName :: string where
  \<open>settingsPageSameName = ''<select id="Bb23" name="Bb23"><input type="checkbox" id="Bb23" name="Bb23" value="1" />HTTPS''\<close>


text \<open>The effects of a POST on the device's list of IDs in the scenarios below.\<close>

definition keep :: "string list \<Rightarrow> string list" where
  "keep d = d"

definition drop2 :: "string list \<Rightarrow> string list" where
  "drop2 d = removeAll ''2'' d"

definition add4 :: "string list \<Rightarrow> string list" where
  "add4 d = (if ''4'' \<in> set d then d else d @ [''4''])"

definition add4twice :: "string list \<Rightarrow> string list" where
  "add4twice d = d @ [''4'', ''4'']"

definition add4and5 :: "string list \<Rightarrow> string list" where
  "add4and5 d = d @ [''4'', ''5'']"


text \<open>The runs of the scenarios: an upload, a deletion and an activation on that printer,
  from a device that holds the given IDs.\<close>

definition uploadRun :: "string \<Rightarrow> (string list \<Rightarrow> string list) \<Rightarrow> string list \<Rightarrow> (error + string) \<times> string list world" where
  "uploadRun page effect ids = UploadNewCert (testPrinter page effect) ''key'' ''cert'' (start ids)"

definition deleteRun :: "string \<Rightarrow> (string list \<Rightarrow> string list) \<Rightarrow> string \<Rightarrow> string list \<Rightarrow> (error + unit) \<times> string list world" where
  "deleteRun page effect cid ids = DeleteCert (testPrinter page effect) cid (start ids)"

definition activateRun :: "string \<Rightarrow> string \<Rightarrow> string list \<Rightarrow> (error + unit) \<times> string list world" where
  "activateRun page cid ids = SetActiveCert (testPrinter page keep) cid (start ids)"

text \<open>\<open>extends m\<close>: running \<open>m\<close> only adds events at the end of the trace.\<close>

definition extends :: "('d, 'a) io \<Rightarrow> bool" where
  "extends m = (\<forall>w. \<exists>rest. trace (snd (m w)) = trace w @ rest)"

section \<open>Shorthands for the scenarios and the claims\<close>

text \<open>The requests and the answer of the printer above, as they stand in its traces.\<close>

definition getReq :: "string \<Rightarrow> (string \<times> string) list \<Rightarrow> request" where
  "getReq pth q = \<lparr>reqMethod = GET, reqUrl = \<lparr>host = ''http://printer'', path = pth, rawQuery = q\<rparr>,
               contentType = [], reqBody = NoBody\<rparr>"

definition postReq :: "string \<Rightarrow> string \<Rightarrow> payload \<Rightarrow> request" where
  "postReq pth ct b = \<lparr>reqMethod = POST, reqUrl = \<lparr>host = ''http://printer'', path = pth, rawQuery = []\<rparr>,
               contentType = ct, reqBody = b\<rparr>"

definition ok200 :: "string \<Rightarrow> error + response" where
  "ok200 page = Inr \<lparr>statusCode = 200, readAll = Inr page\<rparr>"

text \<open>The form values of a delete submission that carries no companion field.\<close>

definition deleteValues :: "string \<Rightarrow> string \<Rightarrow> string \<Rightarrow> (string \<times> string) list" where
  "deleteValues csrfToken control cid =
     [(''pageid'', ''383''), (''CSRFToken'', csrfToken),
      (''hidden_certificate_process_control'', control), (''hidden_certificate_idx'', cid)]"



text \<open>The parts of an import submission that carries no companion field.\<close>

definition importValues :: "string \<Rightarrow> string \<Rightarrow> string \<Rightarrow> string \<Rightarrow> part list" where
  "importValues csrfToken fileName passwordName p12 =
     [Field ''pageid'' ''390'', Field ''CSRFToken'' csrfToken,
      Field ''hidden_certificate_process_control'' ''1'',
      FormFile fileName ''certkey.p12'' p12,
      Field passwordName [],
      Field ''hidden_cert_import_password'' []]"

text \<open>\<open>fewHidden known5 b\<close>: the loop over the hidden matches of the body \<open>b\<close> collects
  fewer than two names (\<open>known5\<close> is the last excluded name, which differs between the
  delete page and the import page).\<close>

definition fewHidden :: "string \<Rightarrow> string \<Rightarrow> bool" where
  "fewHidden known5 b = (length (hiddenLoop known5 (FindAllSubmatch hiddenRegex b) []) < 2)"

section \<open>Properties of the matcher\<close>

lemma rmatch_consumed:
  "st' \<in> set (rmatch r st) \<Longrightarrow>
     \<exists>m. snd st = m @ snd st' \<and> minlen r \<le> length m \<and> (\<forall>l \<in> set (mandatory r). sublist l m)"
proof (induction r arbitrary: st st')
  case (Lit l)
  obtain caps s where st: "st = (caps, s)" by (cases st)
  from Lit st have t: "take (length l) s = l" and st': "st' = (caps, drop (length l) s)"
    by (auto split: if_splits)
  have "s = l @ drop (length l) s" using t by (metis append_take_drop_id)
  moreover have "length l \<le> length l" by simp
  ultimately show ?case using st st' by auto
next
  case (Plus c)
  obtain caps s where st: "st = (caps, s)" by (cases st)
  from Plus st obtain k where k: "1 \<le> k" "k \<le> length (takeWhile (\<lambda>x. x \<noteq> c) s)"
      and st': "st' = (caps, drop k s)"
    by auto
  have "k \<le> length s" using k(2) length_takeWhile_le[of "\<lambda>x. x \<noteq> c" s] by linarith
  then have "s = take k s @ drop k s" "length (take k s) = k" by simp_all
  then show ?case using st st' k(1) by (intro exI[of _ "take k s"]) auto
next
  case (Star c)
  obtain caps s where st: "st = (caps, s)" by (cases st)
  from Star st obtain k where st': "st' = (caps, drop k s)"
    by auto
  have "s = take k s @ drop k s" by simp
  then show ?case using st st' by (intro exI[of _ "take k s"]) auto
next
  case (Cap i r)
  obtain caps s where st: "st = (caps, s)" by (cases st)
  from Cap.prems st obtain caps' rest where in_r: "(caps', rest) \<in> set (rmatch r (caps, s))"
      and st': "st' = ((i, take (length s - length rest) s) # caps', rest)"
    by auto
  from Cap.IH[OF in_r] show ?case using st st' by simp
next
  case (Alt r1 r2)
  from Alt.prems have "st' \<in> set (rmatch r1 st) \<or> st' \<in> set (rmatch r2 st)" by simp
  then show ?case
  proof
    assume "st' \<in> set (rmatch r1 st)"
    from Alt.IH(1)[OF this] show ?thesis by auto
  next
    assume "st' \<in> set (rmatch r2 st)"
    from Alt.IH(2)[OF this] show ?thesis by auto
  qed
next
  case (Cat r1 r2)
  from Cat.prems obtain st1 where 1: "st1 \<in> set (rmatch r1 st)" and 2: "st' \<in> set (rmatch r2 st1)"
    by auto
  from Cat.IH(1)[OF 1] obtain m1 where m1: "snd st = m1 @ snd st1" "minlen r1 \<le> length m1"
      "\<forall>l \<in> set (mandatory r1). sublist l m1" by blast
  from Cat.IH(2)[OF 2] obtain m2 where m2: "snd st1 = m2 @ snd st'" "minlen r2 \<le> length m2"
      "\<forall>l \<in> set (mandatory r2). sublist l m2" by blast
  have "\<forall>l \<in> set (mandatory (Cat r1 r2)). sublist l (m1 @ m2)"
    using m1(3) m2(3) by (auto simp: sublist_append)
  then show ?case using m1 m2 by (intro exI[of _ "m1 @ m2"]) auto
qed

lemma rmatch_keeps:
  "st' \<in> set (rmatch r st) \<Longrightarrow> i \<notin> set (groups r) \<Longrightarrow> map_of (fst st') i = map_of (fst st) i"
proof (induction r arbitrary: st st')
  case (Lit l) then show ?case by (cases st) (auto split: if_splits)
next
  case (Plus c) then show ?case by (cases st) auto
next
  case (Star c) then show ?case by (cases st) auto
next
  case (Cap j r)
  obtain caps s where st: "st = (caps, s)" by (cases st)
  from Cap.prems st obtain caps' rest where in_r: "(caps', rest) \<in> set (rmatch r (caps, s))"
      and st': "st' = ((j, take (length s - length rest) s) # caps', rest)"
    by auto
  from Cap.IH[OF in_r] Cap.prems(2) show ?case using st st' by simp
next
  case (Alt r1 r2)
  from Alt.prems(1) have "st' \<in> set (rmatch r1 st) \<or> st' \<in> set (rmatch r2 st)" by simp
  then show ?case using Alt.IH(1)[of st' st] Alt.IH(2)[of st' st] Alt.prems(2) by auto
next
  case (Cat r1 r2)
  from Cat.prems obtain st1 where 1: "st1 \<in> set (rmatch r1 st)" and 2: "st' \<in> set (rmatch r2 st1)"
    by auto
  from Cat.IH(1)[OF 1] Cat.IH(2)[OF 2] Cat.prems(2) show ?case by simp
qed

lemma rmatch_Cap_nonempty:
  assumes "st' \<in> set (rmatch (Cap i r) st)" and "0 < minlen r"
  shows "\<exists>g. g \<noteq> [] \<and> map_of (fst st') i = Some g"
proof -
  obtain caps s where st: "st = (caps, s)" by (cases st)
  from assms(1) st obtain caps' rest where in_r: "(caps', rest) \<in> set (rmatch r (caps, s))"
      and st': "st' = ((i, take (length s - length rest) s) # caps', rest)"
    by auto
  from rmatch_consumed[OF in_r] obtain m where m: "s = m @ rest" "minlen r \<le> length m" by auto
  then have "take (length s - length rest) s = m" by simp
  moreover have "m \<noteq> []" using m(2) assms(2) by auto
  ultimately show ?thesis using st' by simp
qed



lemma in_Cat:
  "st' \<in> set (rmatch (Cat a b) st) \<longleftrightarrow> (\<exists>st1 \<in> set (rmatch a st). st' \<in> set (rmatch b st1))"
  by simp

lemma matchHere_Some:
  "matchHere re s = Some (sub, rest) \<Longrightarrow>
     \<exists>st. st \<in> set (rmatch re ([], s)) \<and> sub = submatch re s st \<and> rest = snd st"
  by (auto simp: matchHere_def split: list.splits)

lemma matchHere_None: "matchHere re s = None \<longleftrightarrow> rmatch re ([], s) = []"
  by (auto simp: matchHere_def split: list.splits)

lemma findFrom_Some:
  "findFrom re s = Some (sub, rest) \<Longrightarrow>
     \<exists>s' st. suffix s' s \<and> st \<in> set (rmatch re ([], s')) \<and> sub = submatch re s' st \<and> rest = snd st"
proof (induction s)
  case Nil
  then show ?case using matchHere_Some[of re "[]" sub rest] by auto
next
  case (Cons c s)
  show ?case
  proof (cases "matchHere re (c # s)")
    case None
    with Cons.prems have "findFrom re s = Some (sub, rest)" by simp
    from Cons.IH[OF this] show ?thesis by (auto intro: suffix_ConsI)
  next
    case (Some r)
    with Cons.prems have "matchHere re (c # s) = Some (sub, rest)" by simp
    from matchHere_Some[OF this] show ?thesis by blast
  qed
qed

lemma findFrom_None:
  "findFrom re s = None \<longleftrightarrow> (\<forall>s'. suffix s' s \<longrightarrow> rmatch re ([], s') = [])"
proof (induction s)
  case Nil
  then show ?case by (simp add: matchHere_None)
next
  case (Cons c s)
  show ?case
  proof (cases "matchHere re (c # s)")
    case None
    have 1: "findFrom re (c # s) = findFrom re s" using None by simp
    have 2: "rmatch re ([], c # s) = []" using None by (simp add: matchHere_None)
    show ?thesis unfolding 1 Cons.IH using 2 by (auto simp: suffix_Cons)
  next
    case (Some r)
    have 1: "findFrom re (c # s) \<noteq> None" using Some by simp
    have "rmatch re ([], c # s) \<noteq> []" using Some matchHere_None[of re "c # s"] by auto
    then show ?thesis using 1 by (auto simp: suffix_Cons)
  qed
qed

lemma length_submatch [simp]: "length (submatch re s st) = Suc (ngroups re)"
  by (simp add: submatch_def)

lemma submatch_nth:
  "1 \<le> i \<Longrightarrow> i \<le> ngroups re \<Longrightarrow>
     submatch re s st ! i = (case map_of (fst st) i of Some g \<Rightarrow> g | None \<Rightarrow> [])"
proof -
  assume a: "1 \<le> i" "i \<le> ngroups re"
  then obtain j where j: "i = Suc j" by (cases i) auto
  with a have "j < length [1 ..< Suc (ngroups re)]" by simp
  then show ?thesis using j by (simp add: submatch_def del: upt_Suc)
qed




lemma FindSubmatch_cases:
  "FindSubmatch re b = [] \<and> findFrom re b = None \<or> isMatch re (FindSubmatch re b)"
  by (cases "findFrom re b") (auto simp: FindSubmatch_def isMatch_def dest!: findFrom_Some)

lemma isMatch_nonempty: "isMatch re sub \<Longrightarrow> length sub = Suc (ngroups re)"
  by (auto simp: isMatch_def)




lemma rmatch_Cat_Cap:
  assumes "st' \<in> set (rmatch (Cat a (Cat (Cap i r) b)) st)" and "0 < minlen r"
    and "i \<notin> set (groups b)"
  shows "\<exists>g. g \<noteq> [] \<and> map_of (fst st') i = Some g"
proof -
  from assms(1) obtain st1 st2 where "st2 \<in> set (rmatch (Cap i r) st1)" "st' \<in> set (rmatch b st2)"
    unfolding in_Cat by blast
  then show ?thesis
    using rmatch_Cap_nonempty[of st2 i r st1] rmatch_keeps[of st' b st2 i] assms(2,3) by simp
qed

lemma idNamePair_named: "st' \<in> set (rmatch idNamePair st) \<Longrightarrow> named 1 3 (fst st')"
proof -
  assume "st' \<in> set (rmatch idNamePair st)"
  then consider
    "st' \<in> set (rmatch (cat [Lit ''id=\"'', Cap 1 (Plus CHR ''\"''), Lit ''\"'', Plus CHR ''>'',
               Lit ''name=\"'', Cap 2 (Plus CHR ''\"''), Lit ''\"'']) st)"
    | "st' \<in> set (rmatch (cat [Lit ''name=\"'', Cap 3 (Plus CHR ''\"''), Lit ''\"'', Plus CHR ''>'',
               Lit ''id=\"'', Cap 4 (Plus CHR ''\"''), Lit ''\"'']) st)"
    unfolding idNamePair_def by auto
  then show ?thesis
  proof cases
    case 1
    have "\<exists>g. g \<noteq> [] \<and> map_of (fst st') 1 = Some g"
      by (rule rmatch_Cat_Cap[OF 1[unfolded cat_def foldr.simps o_apply]]) simp_all
    then show ?thesis by (simp add: named_def)
  next
    case 2
    have "\<exists>g. g \<noteq> [] \<and> map_of (fst st') 3 = Some g"
      by (rule rmatch_Cat_Cap[OF 2[unfolded cat_def foldr.simps o_apply]]) simp_all
    then show ?thesis by (simp add: named_def)
  qed
qed

lemma idOrName_named: "st' \<in> set (rmatch idOrName st) \<Longrightarrow> named 1 2 (fst st')"
proof -
  assume "st' \<in> set (rmatch idOrName st)"
  then consider
    "st' \<in> set (rmatch (cat [Lit ''id=\"'', Cap 1 (Plus CHR ''\"''), Lit ''\"'']) st)"
    | "st' \<in> set (rmatch (cat [Lit ''name=\"'', Cap 2 (Plus CHR ''\"''), Lit ''\"'']) st)"
    unfolding idOrName_def by auto
  then show ?thesis
  proof cases
    case 1
    have "\<exists>g. g \<noteq> [] \<and> map_of (fst st') 1 = Some g"
      by (rule rmatch_Cat_Cap[OF 1[unfolded cat_def foldr.simps o_apply]]) simp_all
    then show ?thesis by (simp add: named_def)
  next
    case 2
    have "\<exists>g. g \<noteq> [] \<and> map_of (fst st') 2 = Some g"
      by (rule rmatch_Cat_Cap[OF 2[unfolded cat_def foldr.simps o_apply]]) simp_all
    then show ?thesis by (simp add: named_def)
  qed
qed

lemma named_after:
  assumes "st' \<in> set (rmatch b st)" and "named i j (fst st)"
    and "i \<notin> set (groups b)" and "j \<notin> set (groups b)"
  shows "named i j (fst st')"
  using assms rmatch_keeps[of st' b st i] rmatch_keeps[of st' b st j] by (simp add: named_def)



lemma named_pick:
  assumes "named 1 3 (fst st)" and "3 \<le> ngroups re"
  shows "pick (submatch re s st) 1 3 \<noteq> []"
proof -
  have 1: "submatch re s st ! 1 = (case map_of (fst st) 1 of Some g \<Rightarrow> g | None \<Rightarrow> [])"
    using assms(2) by (intro submatch_nth) auto
  have 3: "submatch re s st ! 3 = (case map_of (fst st) 3 of Some g \<Rightarrow> g | None \<Rightarrow> [])"
    using assms(2) by (intro submatch_nth) auto
  show ?thesis using assms(1) unfolding pick_def 1 3 named_def by (auto split: option.splits)
qed

lemma named_12:
  assumes "named 1 2 (fst st)" and "2 \<le> ngroups re"
  shows "submatch re s st ! 1 \<noteq> [] \<or> submatch re s st ! 2 \<noteq> []"
proof -
  have 1: "submatch re s st ! 1 = (case map_of (fst st) 1 of Some g \<Rightarrow> g | None \<Rightarrow> [])"
    using assms(2) by (intro submatch_nth) auto
  have 2: "submatch re s st ! 2 = (case map_of (fst st) 2 of Some g \<Rightarrow> g | None \<Rightarrow> [])"
    using assms(2) by (intro submatch_nth) auto
  show ?thesis using assms(1) unfolding 1 2 named_def by (auto split: option.splits)
qed

lemma ngroups_idNamePair [simp]: "ngroups idNamePair = 4"
  by (simp add: idNamePair_def cat_def)

lemma ngroups_idOrName [simp]: "ngroups idOrName = 2"
  by (simp add: idOrName_def cat_def)


lemma hidden_named: "st' \<in> set (rmatch hiddenRegex st) \<Longrightarrow> named 1 3 (fst st')"
proof -
  assume "st' \<in> set (rmatch hiddenRegex st)"
  then obtain st1 st2 where a: "st2 \<in> set (rmatch idNamePair st1)"
      and b: "st' \<in> set (rmatch (cat [Star CHR ''>'', Lit ''value=\"\"'', Star CHR ''>'', Lit ''>'']) st2)"
    unfolding hiddenRegex_def cat_def foldr.simps o_apply in_Cat by blast
  have g: "1 \<notin> set (groups (cat [Star CHR ''>'', Lit ''value=\"\"'', Star CHR ''>'', Lit ''>'']))"
      "3 \<notin> set (groups (cat [Star CHR ''>'', Lit ''value=\"\"'', Star CHR ''>'', Lit ''>'']))"
    by (simp_all add: cat_def)
  show ?thesis by (rule named_after[OF b idNamePair_named[OF a] g])
qed


lemma file_named: "st' \<in> set (rmatch fileRegex st) \<Longrightarrow> named 1 2 (fst st')"
proof -
  assume "st' \<in> set (rmatch fileRegex st)"
  then obtain st1 st2 where a: "st2 \<in> set (rmatch idOrName st1)"
      and b: "st' \<in> set (rmatch (cat [Star CHR ''>'', Lit ''>'']) st2)"
    unfolding fileRegex_def cat_def foldr.simps o_apply in_Cat by blast
  have g: "1 \<notin> set (groups (cat [Star CHR ''>'', Lit ''>'']))"
      "2 \<notin> set (groups (cat [Star CHR ''>'', Lit ''>'']))"
    by (simp_all add: cat_def)
  show ?thesis by (rule named_after[OF b idOrName_named[OF a] g])
qed

lemma password_named: "st' \<in> set (rmatch passwordRegex st) \<Longrightarrow> named 1 2 (fst st')"
proof -
  assume "st' \<in> set (rmatch passwordRegex st)"
  then obtain st1 st2 where a: "st2 \<in> set (rmatch idOrName st1)"
      and b: "st' \<in> set (rmatch (cat [Star CHR ''>'', Lit ''>'']) st2)"
    unfolding passwordRegex_def cat_def foldr.simps o_apply in_Cat by blast
  have g: "1 \<notin> set (groups (cat [Star CHR ''>'', Lit ''>'']))"
      "2 \<notin> set (groups (cat [Star CHR ''>'', Lit ''>'']))"
    by (simp_all add: cat_def)
  show ?thesis by (rule named_after[OF b idOrName_named[OF a] g])
qed

lemma ngroups_regexes [simp]:
  "ngroups selectRegex = 4" "ngroups hiddenRegex = 4" "ngroups httpsCheckboxRegex = 4"
  "ngroups fileRegex = 2" "ngroups passwordRegex = 2"
  by (simp_all add: selectRegex_def hiddenRegex_def httpsCheckboxRegex_def fileRegex_def
      passwordRegex_def cat_def)


lemma hidden_pick: "isMatch hiddenRegex sub \<Longrightarrow> length sub = 5 \<and> pick sub 1 3 \<noteq> []"
proof -
  assume "isMatch hiddenRegex sub"
  then obtain s st where st: "st \<in> set (rmatch hiddenRegex ([], s))" and sub: "sub = submatch hiddenRegex s st"
    unfolding isMatch_def by blast
  have "pick (submatch hiddenRegex s st) 1 3 \<noteq> []"
    by (rule named_pick[OF hidden_named[OF st]]) simp
  then show ?thesis using sub by simp
qed


lemma file_pick: "isMatch fileRegex sub \<Longrightarrow> length sub = 3 \<and> (sub ! 1 \<noteq> [] \<or> sub ! 2 \<noteq> [])"
proof -
  assume "isMatch fileRegex sub"
  then obtain s st where st: "st \<in> set (rmatch fileRegex ([], s))" and sub: "sub = submatch fileRegex s st"
    unfolding isMatch_def by blast
  have "submatch fileRegex s st ! 1 \<noteq> [] \<or> submatch fileRegex s st ! 2 \<noteq> []"
    by (rule named_12[OF file_named[OF st]]) simp
  then show ?thesis using sub by simp
qed

lemma password_pick: "isMatch passwordRegex sub \<Longrightarrow> length sub = 3 \<and> (sub ! 1 \<noteq> [] \<or> sub ! 2 \<noteq> [])"
proof -
  assume "isMatch passwordRegex sub"
  then obtain s st where st: "st \<in> set (rmatch passwordRegex ([], s))" and sub: "sub = submatch passwordRegex s st"
    unfolding isMatch_def by blast
  have "submatch passwordRegex s st ! 1 \<noteq> [] \<or> submatch passwordRegex s st ! 2 \<noteq> []"
    by (rule named_12[OF password_named[OF st]]) simp
  then show ?thesis using sub by simp
qed

lemma FindSubmatch_mandatory:
  assumes "FindSubmatch re b \<noteq> []" and "l \<in> set (mandatory re)"
  shows "sublist l b"
proof -
  from assms(1) obtain sub rest where "findFrom re b = Some (sub, rest)"
    by (cases "findFrom re b") (auto simp: FindSubmatch_def)
  from findFrom_Some[OF this] obtain s' st where s': "suffix s' b" and st: "st \<in> set (rmatch re ([], s'))"
    by blast
  from rmatch_consumed[OF st] assms(2) obtain m where "s' = m @ snd st" "sublist l m" by auto
  then have "sublist l s'" by (auto simp: sublist_append)
  then show ?thesis using s' by (meson sublist_order.order_trans suffix_imp_sublist)
qed

lemma mandatory_lits:
  "''<select'' \<in> set (mandatory selectRegex)"
  "''type=\"file\"'' \<in> set (mandatory fileRegex)"
  "''type=\"password\"'' \<in> set (mandatory passwordRegex)"
  by (simp_all add: selectRegex_def fileRegex_def passwordRegex_def cat_def)

lemma httpsLoop_select [simp]: "certSelectField (httpsLoop i ms f) = certSelectField f"
  by (induction i ms f rule: httpsLoop.induct) (auto simp: Let_def)


lemma parseHttp_missing:
  "FindSubmatch selectRegex b = [] \<Longrightarrow>
     parseHttpSettingsFormFields b =
       Inl (ErrNew ''printer: http settings: failed to find certificate select field name'')"
  by (simp add: parseHttpSettingsFormFields_def Let_def)

text \<open>A match of a pattern that cannot match the empty string ends after the place where
  its search began, so \<open>FindAllSubmatch\<close> goes on from the end of each match.\<close>

lemma findFrom_shorter:
  assumes "0 < minlen re" and "findFrom re b = Some (sub, rest)"
  shows "length rest < length b"
proof -
  from findFrom_Some[OF assms(2)] obtain s' st where s': "suffix s' b"
      and st: "st \<in> set (rmatch re ([], s'))" and rest: "rest = snd st"
    by blast
  from rmatch_consumed[OF st] obtain m where m: "s' = m @ snd st" "minlen re \<le> length m" by auto
  have "length s' \<le> length b" using s' by (rule suffix_length_le)
  then show ?thesis using m assms(1) rest by simp
qed

lemma FindAllSubmatch_consuming:
  assumes "0 < minlen re"
  shows "FindAllSubmatch re b =
           (case findFrom re b of None \<Rightarrow> [] | Some (sub, rest) \<Rightarrow> sub # FindAllSubmatch re rest)"
  using findFrom_shorter[OF assms, of b]
  by (subst FindAllSubmatch.simps) (auto split: option.splits)

lemma patterns_consume: "0 < minlen hiddenRegex" "0 < minlen httpsCheckboxRegex"
  by (simp_all add: hiddenRegex_def httpsCheckboxRegex_def cat_def)

section \<open>Properties of the orchestrators\<close>

lemma containsID_set [simp]: "containsID ids cid \<longleftrightarrow> cid \<in> set ids"
  by (induction ids) auto

lemma parseDelete_total: "\<exists>f. parseDeleteFormFields b = Inr f"
  by (simp add: parseDeleteFormFields_def Let_def)

lemma andThenE:
  assumes "andThen m f w = (r, w')"
  obtains (fail) e where "m w = (Inl e, w')" "r = Inl e"
        | (ok) x w1 where "m w = (Inr x, w1)" "f x w1 = (r, w')"
  using assms unfolding andThen_def by (auto split: prod.splits sum.splits)

lemma fromResult_eq [simp]: "fromResult res w = (r, w') \<longleftrightarrow> res = r \<and> w' = w"
  by (auto simp: fromResult_def)

lemma failWith_eq [simp]: "failWith e w = (r, w') \<longleftrightarrow> r = Inl e \<and> w' = w"
  by (auto simp: failWith_def)

lemma succeed_eq [simp]: "succeed x w = (r, w') \<longleftrightarrow> r = Inr x \<and> w' = w"
  by (auto simp: succeed_def)

lemma callDo_trace: "callDo p req w = (r, w') \<Longrightarrow> trace w' = trace w @ [EvDo req r]"
  by (auto simp: callDo_def split: prod.splits)

lemma callGetCertIDs_trace: "callGetCertIDs p w = (r, w') \<Longrightarrow> trace w' = trace w @ [EvGetCertIDs r]"
  by (auto simp: callGetCertIDs_def split: prod.splits)

lemma sleep_trace: "sleep n w = (r, w') \<Longrightarrow> r = Inr () \<and> trace w' = trace w @ [EvSleep n]"
  by (auto simp: sleep_def)

lemma doRequest_cases:
  assumes "doRequest p m urlPath body adjust w = (r, w')"
  obtains (not_sent) e where "r = Inl e" "w' = w"
        | (sent) u u' where "ParseRequestURI p (baseUrl p) = Inr u"
            "NewRequestURL p m (u\<lparr>path := urlPath\<rparr>) = Inr u'"
            "trace w' = trace w @
               [EvDo (adjust \<lparr>reqMethod = m, reqUrl = u', contentType = [], reqBody = body\<rparr>) r]"
  using assms unfolding doRequest_def NewRequest_def
  by (auto elim!: andThenE dest!: callDo_trace split: sum.splits)

lemma getHttpSettings_cases:
  assumes "getHttpSettings p w = (r, w')"
  obtains (not_sent) e where "r = Inl e" "w' = w"
        | (failed) e greq gr where "r = Inl e" "trace w' = trace w @ [EvDo greq gr]" "reqMethod greq = GET"
        | (got) greq gresp b where "r = Inr b" "trace w' = trace w @ [EvDo greq (Inr gresp)]"
            "reqMethod greq = GET" "readAll gresp = Inr b" "statusCode gresp = 200"
  using assms unfolding getHttpSettings_def
  by (auto elim!: andThenE doRequest_cases split: if_splits)


lemma postDeleteForm_cases:
  assumes "postDeleteForm p cid control b w = (r, w')"
  obtains (not_sent) e where "r = Inl e" "w' = w"
        | (sent) tok f preq where "parseBodyForCSRFToken p b = Inr tok" "parseDeleteFormFields b = Inr f"
            "trace w' = trace w @ [EvDo preq r]" "reqMethod preq = POST"
            "reqBody preq = UrlEncoded (deleteForm tok f control cid)"
  using assms unfolding postDeleteForm_def setContentType_def
  by (auto elim!: andThenE doRequest_cases)

lemma SetActiveCert_cases:
  assumes "SetActiveCert p cid (start d) = (r, w')"
  obtains
    (not_sent) e where "r = Inl e" "trace w' = []"
  | (get_only) e greq gr where "r = Inl e" "trace w' = [EvDo greq gr]" "reqMethod greq = GET"
  | (post1) e greq gresp b tok f preq pr where
      "r = Inl e" "trace w' = [EvDo greq (Inr gresp), EvDo preq pr]"
      "reqMethod greq = GET" "readAll gresp = Inr b" "statusCode gresp = 200"
      "parseBodyForCSRFToken p b = Inr tok" "parseHttpSettingsFormFields b = Inr f"
      "reqMethod preq = POST" "reqBody preq = UrlEncoded (activateForm tok f cid)"
  | (post2) greq gresp b tok f preq presp b2 tok2 creq cr where
      "trace w' = [EvDo greq (Inr gresp), EvDo preq (Inr presp), EvDo creq cr]"
      "reqMethod greq = GET" "readAll gresp = Inr b" "statusCode gresp = 200"
      "parseBodyForCSRFToken p b = Inr tok" "parseHttpSettingsFormFields b = Inr f"
      "reqMethod preq = POST" "reqBody preq = UrlEncoded (activateForm tok f cid)"
      "readAll presp = Inr b2" "statusCode presp = 200" "parseBodyForCSRFToken p b2 = Inr tok2"
      "reqMethod creq = POST" "reqBody creq = UrlEncoded (confirmForm tok2)"
      "r = (case cr of Inl e \<Rightarrow> Inl e
            | Inr cresp \<Rightarrow> if statusCode cresp \<noteq> 200 then Inl errPostSetActive else Inr ())"
  using assms unfolding SetActiveCert_def start_def
  by (auto elim!: andThenE getHttpSettings_cases doRequest_cases
        simp: setContentType_def split: if_splits)


lemma DeleteCert_cases:
  assumes "DeleteCert p cid (start d) = (r, w')"
  obtains
    (invalid) "cid = [] \<or> cid = ''0''" "r = Inl ErrCertDeleteInvalidID" "w' = start d"
  | (list_failed) e where "r = Inl e" "trace w' = [EvGetCertIDs (Inl e)]"
  | (absent) ids where "cid \<notin> set ids" "r = Inl ErrCertDeleteInvalidID"
      "trace w' = [EvGetCertIDs (Inr ids)]"
  | (not_sent) e ids where "r = Inl e" "trace w' = [EvGetCertIDs (Inr ids)]" "cid \<in> set ids"
  | (get_only) e ids greq gr where "r = Inl e" "trace w' = [EvGetCertIDs (Inr ids), EvDo greq gr]"
      "reqMethod greq = GET"
  | (post1) e ids greq gresp b tok f preq pr where
      "r = Inl e" "trace w' = [EvGetCertIDs (Inr ids), EvDo greq (Inr gresp), EvDo preq pr]"
      "reqMethod greq = GET" "readAll gresp = Inr b" "statusCode gresp = 200"
      "parseBodyForCSRFToken p b = Inr tok" "parseDeleteFormFields b = Inr f"
      "reqMethod preq = POST" "reqBody preq = UrlEncoded (deleteForm tok f ''1'' cid)"
  | (post2) e ids greq gresp b tok f preq presp b2 tok2 f2 creq where
      "r = Inl e"
      "trace w' = [EvGetCertIDs (Inr ids), EvDo greq (Inr gresp), EvDo preq (Inr presp),
                   EvDo creq (Inl e)]"
      "reqMethod greq = GET" "readAll gresp = Inr b" "statusCode gresp = 200"
      "parseBodyForCSRFToken p b = Inr tok" "parseDeleteFormFields b = Inr f"
      "reqMethod preq = POST" "reqBody preq = UrlEncoded (deleteForm tok f ''1'' cid)"
      "readAll presp = Inr b2" "statusCode presp = 200"
      "parseBodyForCSRFToken p b2 = Inr tok2" "parseDeleteFormFields b2 = Inr f2"
      "reqMethod creq = POST" "reqBody creq = UrlEncoded (deleteForm tok2 f2 ''2'' cid)"
  | (settled) ids greq gresp b tok f preq presp b2 tok2 f2 creq cresp rr where
      "trace w' = [EvGetCertIDs (Inr ids), EvDo greq (Inr gresp), EvDo preq (Inr presp),
                   EvDo creq (Inr cresp), EvSleep 10, EvGetCertIDs rr]"
      "reqMethod greq = GET" "readAll gresp = Inr b" "statusCode gresp = 200"
      "parseBodyForCSRFToken p b = Inr tok" "parseDeleteFormFields b = Inr f"
      "reqMethod preq = POST" "reqBody preq = UrlEncoded (deleteForm tok f ''1'' cid)"
      "readAll presp = Inr b2" "statusCode presp = 200"
      "parseBodyForCSRFToken p b2 = Inr tok2" "parseDeleteFormFields b2 = Inr f2"
      "reqMethod creq = POST" "reqBody creq = UrlEncoded (deleteForm tok2 f2 ''2'' cid)"
      "r = (case rr of Inl e \<Rightarrow> Inl e
            | Inr ids' \<Rightarrow> if cid \<in> set ids' then Inl errStillExists else Inr ())"
  using assms unfolding DeleteCert_def start_def
  by (auto elim!: andThenE doRequest_cases postDeleteForm_cases
        dest!: callGetCertIDs_trace sleep_trace simp: setQuery_def split: if_splits)


lemma UploadNewCert_cases:
  assumes "UploadNewCert p keyPem certPem (start d) = (r, w')"
  obtains
    (no_p12) e where "r = Inl e" "trace w' = []"
  | (list_failed) e where "r = Inl e" "trace w' = [EvGetCertIDs (Inl e)]"
  | (not_sent) e orig where "r = Inl e" "trace w' = [EvGetCertIDs (Inr orig)]"
  | (get_only) e orig greq gr where "r = Inl e" "trace w' = [EvGetCertIDs (Inr orig), EvDo greq gr]"
      "reqMethod greq = GET"
  | (posted) e orig greq gresp b tok f p12 preq pr where
      "r = Inl e" "trace w' = [EvGetCertIDs (Inr orig), EvDo greq (Inr gresp), EvDo preq pr]"
      "reqMethod greq = GET" "readAll gresp = Inr b" "statusCode gresp = 200"
      "parseBodyForCSRFToken p b = Inr tok" "parseImportFormFields b = Inr f"
      "reqMethod preq = POST" "reqBody preq = Multipart (importForm tok f p12)"
  | (settled) orig greq gresp b tok f p12 preq presp rr where
      "trace w' = [EvGetCertIDs (Inr orig), EvDo greq (Inr gresp), EvDo preq (Inr presp),
                   EvSleep 10, EvGetCertIDs rr]"
      "reqMethod greq = GET" "readAll gresp = Inr b" "statusCode gresp = 200"
      "parseBodyForCSRFToken p b = Inr tok" "parseImportFormFields b = Inr f"
      "reqMethod preq = POST" "reqBody preq = Multipart (importForm tok f p12)"
      "statusCode presp = 200"
      "r = (case rr of Inl e \<Rightarrow> Inl e | Inr post \<Rightarrow> deduceNewId orig post)"
  using assms unfolding UploadNewCert_def start_def
  by (auto elim!: andThenE doRequest_cases
        dest!: callGetCertIDs_trace sleep_trace simp: setContentType_def split: if_splits sum.splits)

lemma parse_deletePage: "parseDeleteFormFields deletePage = Inr \<lparr>hiddenField1 = ''Bb0a'', hiddenField2 = ''Bb1c''\<rparr>"
  by code_simp

lemma parse_deletePage1: "parseDeleteFormFields deletePage1 = Inr \<lparr>hiddenField1 = [], hiddenField2 = []\<rparr>"
  by code_simp

lemma parse_importPage: "parseImportFormFields importPage =
    Inr \<lparr>impHiddenField1 = [], impHiddenField2 = [], fileField = ''Ba40'', passwordField = ''Ba41''\<rparr>"
  by code_simp

lemma parse_importPageNoFile: "parseImportFormFields importPageNoFile =
    Inl (ErrNew ''printer: upload: failed to find file input field name'')"
  by code_simp

lemma parse_settingsPage: "parseHttpSettingsFormFields settingsPage =
    Inr \<lparr>certSelectField = ''Bb23'', httpsWebField = ''Ba8c'', httpsIppField = ''Ba9e''\<rparr>"
  by code_simp


lemma parse_settingsPageNoSelect: "parseHttpSettingsFormFields settingsPageNoSelect =
    Inl (ErrNew ''printer: http settings: failed to find certificate select field name'')"
  by code_simp

lemmas run_defs = andThen_def fromResult_def failWith_def succeed_def callGetCertIDs_def
  callDo_def sleep_def NewRequest_def doRequest_def setContentType_def setQuery_def start_def
  testPrinter_def postDeleteForm_def getHttpSettings_def parsedString_def
  urlCertDelete_def urlCertImport_def urlHttpCertServerSettings_def

lemma run_upload_add4:
  "uploadRun importPage add4 [''1'', ''2''] =
     (Inr ''4'', \<lparr>dev = [''1'', ''2'', ''4''], trace =
        [EvGetCertIDs (Inr [''1'', ''2'']),
         EvDo (getReq urlCertImport []) (ok200 importPage),
         EvDo (postReq urlCertImport ''multipart/form-data''
                (Multipart [Field ''pageid'' ''390'', Field ''CSRFToken'' ''tok'',
                 Field ''hidden_certificate_process_control'' ''1'',
                 FormFile ''Ba40'' ''certkey.p12'' ''keycert'', Field ''Ba41'' [],
                 Field ''hidden_cert_import_password'' []])) (ok200 importPage),
         EvSleep 10,
         EvGetCertIDs (Inr [''1'', ''2'', ''4''])]\<rparr>)"
  by (simp add: uploadRun_def UploadNewCert_def run_defs parse_importPage add4_def importForm_def
      deduceNewId_def getReq_def postReq_def ok200_def)

lemma run_upload_add4twice:
  "uploadRun importPage add4twice [''1'', ''2''] =
     (Inl errDeduce, \<lparr>dev = [''1'', ''2'', ''4'', ''4''], trace =
        [EvGetCertIDs (Inr [''1'', ''2'']),
         EvDo (getReq urlCertImport []) (ok200 importPage),
         EvDo (postReq urlCertImport ''multipart/form-data''
                (Multipart [Field ''pageid'' ''390'', Field ''CSRFToken'' ''tok'',
                 Field ''hidden_certificate_process_control'' ''1'',
                 FormFile ''Ba40'' ''certkey.p12'' ''keycert'', Field ''Ba41'' [],
                 Field ''hidden_cert_import_password'' []])) (ok200 importPage),
         EvSleep 10,
         EvGetCertIDs (Inr [''1'', ''2'', ''4'', ''4''])]\<rparr>)"
  by (simp add: uploadRun_def UploadNewCert_def run_defs parse_importPage add4twice_def importForm_def
      deduceNewId_def getReq_def postReq_def ok200_def)

lemma run_upload_add4and5:
  "uploadRun importPage add4and5 [''1'', ''2''] =
     (Inl errDeduce, \<lparr>dev = [''1'', ''2'', ''4'', ''5''], trace =
        [EvGetCertIDs (Inr [''1'', ''2'']),
         EvDo (getReq urlCertImport []) (ok200 importPage),
         EvDo (postReq urlCertImport ''multipart/form-data''
                (Multipart (importValues ''tok'' ''Ba40'' ''Ba41'' ''keycert''))) (ok200 importPage),
         EvSleep 10,
         EvGetCertIDs (Inr [''1'', ''2'', ''4'', ''5''])]\<rparr>)"
  by (simp add: uploadRun_def UploadNewCert_def run_defs parse_importPage add4and5_def importForm_def
      deduceNewId_def getReq_def postReq_def ok200_def importValues_def)

lemma run_upload_keep:
  "uploadRun importPage keep [''1'', ''2''] =
     (Inr [], \<lparr>dev = [''1'', ''2''], trace =
        [EvGetCertIDs (Inr [''1'', ''2'']),
         EvDo (getReq urlCertImport []) (ok200 importPage),
         EvDo (postReq urlCertImport ''multipart/form-data''
                (Multipart (importValues ''tok'' ''Ba40'' ''Ba41'' ''keycert''))) (ok200 importPage),
         EvSleep 10,
         EvGetCertIDs (Inr [''1'', ''2''])]\<rparr>)"
  by (simp add: uploadRun_def UploadNewCert_def run_defs parse_importPage keep_def importForm_def
      deduceNewId_def getReq_def postReq_def ok200_def importValues_def)

lemma newIdLoop_filter:
  "newIdLoop orig post (n0, c0) =
     (if filter (\<lambda>x. x \<notin> set orig) post = [] then n0 else last (filter (\<lambda>x. x \<notin> set orig) post),
      c0 + length (filter (\<lambda>x. x \<notin> set orig) post))"
  by (induction post arbitrary: n0 c0) (auto simp: Let_def)

lemma deduceNewId_filter:
  "deduceNewId orig post =
     (if length (filter (\<lambda>x. x \<notin> set orig) post) > 1 then Inl errDeduce
      else if filter (\<lambda>x. x \<notin> set orig) post = [] then Inr []
      else Inr (last (filter (\<lambda>x. x \<notin> set orig) post)))"
  by (simp add: deduceNewId_def newIdLoop_filter)

lemma UploadNewCert_settled:
  assumes "UploadNewCert p keyPem certPem (start d) = (r, w')"
    and "hd (trace w') = EvGetCertIDs (Inr orig)"
    and "EvSleep 10 \<in> set (trace w')"
    and "last (trace w') = EvGetCertIDs (Inr post)"
  shows "r = deduceNewId orig post"
  using assms(1)
  by (cases rule: UploadNewCert_cases) (use assms(2-4) in auto)

lemma new_entries_distinct:
  assumes "distinct post"
  shows "length (filter (\<lambda>x. x \<notin> set orig) post) = card (set post - set orig)"
    and "set post - set orig = {x} \<Longrightarrow> filter (\<lambda>x. x \<notin> set orig) post = [x]"
proof -
  let ?n = "filter (\<lambda>x. x \<notin> set orig) post"
  have s: "set ?n = set post - set orig" by auto
  have d: "distinct ?n" using assms by simp
  show l: "length ?n = card (set post - set orig)"
    using distinct_card[OF d] s by simp
  assume x: "set post - set orig = {x}"
  then have "length ?n = 1" using l by simp
  then obtain y where y: "?n = [y]" by (cases ?n) auto
  then have "set ?n = {y}" by simp
  with s x have "y = x" by simp
  with y show "?n = [x]" by simp
qed

lemma two_positions:
  assumes "i < j" "j < length xs" "P (xs ! i)" "P (xs ! j)"
  shows "2 \<le> length (filter P xs)"
proof -
  have xs: "xs = take j xs @ xs ! j # drop (Suc j) xs"
    using assms(2) by (rule id_take_nth_drop)
  have "xs ! i \<in> set (take j xs)"
    using assms(1,2) by (auto simp: in_set_conv_nth intro!: exI[of _ i])
  then have "filter P (take j xs) \<noteq> []"
    using assms(3) by (auto simp: filter_empty_conv)
  then have "1 \<le> length (filter P (take j xs))"
    by (cases "filter P (take j xs)") auto
  moreover have "length (filter P xs) =
      length (filter P (take j xs)) + length (filter P (xs ! j # drop (Suc j) xs))"
    by (subst xs) simp
  ultimately show ?thesis using assms(4) by simp
qed

lemma run_delete_drop2:
  "deleteRun deletePage drop2 ''2'' [''1'', ''2'', ''3''] =
     (Inr (), \<lparr>dev = [''1'', ''3''], trace =
        [EvGetCertIDs (Inr [''1'', ''2'', ''3'']),
         EvDo (getReq urlCertDelete [(''idx'', ''2'')]) (ok200 deletePage),
         EvDo (postReq urlCertDelete ''application/x-www-form-urlencoded''
                (UrlEncoded [(''pageid'', ''383''), (''CSRFToken'', ''tok''), (''Bb0a'', []), (''Bb1c'', []),
                 (''hidden_certificate_process_control'', ''1''), (''hidden_certificate_idx'', ''2'')]))
              (ok200 deletePage),
         EvDo (postReq urlCertDelete ''application/x-www-form-urlencoded''
                (UrlEncoded [(''pageid'', ''383''), (''CSRFToken'', ''tok''), (''Bb0a'', []), (''Bb1c'', []),
                 (''hidden_certificate_process_control'', ''2''), (''hidden_certificate_idx'', ''2'')]))
              (ok200 deletePage),
         EvSleep 10,
         EvGetCertIDs (Inr [''1'', ''3''])]\<rparr>)"
  by (simp add: deleteRun_def DeleteCert_def run_defs parse_deletePage drop2_def deleteForm_def
      valuesSet_def getReq_def postReq_def ok200_def)

lemma run_delete_keep:
  "deleteRun deletePage keep ''2'' [''1'', ''2'', ''3''] =
     (Inl errStillExists, \<lparr>dev = [''1'', ''2'', ''3''], trace =
        [EvGetCertIDs (Inr [''1'', ''2'', ''3'']),
         EvDo (getReq urlCertDelete [(''idx'', ''2'')]) (ok200 deletePage),
         EvDo (postReq urlCertDelete ''application/x-www-form-urlencoded''
                (UrlEncoded [(''pageid'', ''383''), (''CSRFToken'', ''tok''), (''Bb0a'', []), (''Bb1c'', []),
                 (''hidden_certificate_process_control'', ''1''), (''hidden_certificate_idx'', ''2'')]))
              (ok200 deletePage),
         EvDo (postReq urlCertDelete ''application/x-www-form-urlencoded''
                (UrlEncoded [(''pageid'', ''383''), (''CSRFToken'', ''tok''), (''Bb0a'', []), (''Bb1c'', []),
                 (''hidden_certificate_process_control'', ''2''), (''hidden_certificate_idx'', ''2'')]))
              (ok200 deletePage),
         EvSleep 10,
         EvGetCertIDs (Inr [''1'', ''2'', ''3''])]\<rparr>)"
  by (simp add: deleteRun_def DeleteCert_def run_defs parse_deletePage keep_def deleteForm_def
      valuesSet_def getReq_def postReq_def ok200_def)

lemma run_delete_one_hidden:
  "deleteRun deletePage1 drop2 ''2'' [''1'', ''2'', ''3''] =
     (Inr (), \<lparr>dev = [''1'', ''3''], trace =
        [EvGetCertIDs (Inr [''1'', ''2'', ''3'']),
         EvDo (getReq urlCertDelete [(''idx'', ''2'')]) (ok200 deletePage1),
         EvDo (postReq urlCertDelete ''application/x-www-form-urlencoded''
                (UrlEncoded (deleteValues ''tok'' ''1'' ''2''))) (ok200 deletePage1),
         EvDo (postReq urlCertDelete ''application/x-www-form-urlencoded''
                (UrlEncoded (deleteValues ''tok'' ''2'' ''2''))) (ok200 deletePage1),
         EvSleep 10,
         EvGetCertIDs (Inr [''1'', ''3''])]\<rparr>)"
  by (simp add: deleteRun_def DeleteCert_def run_defs parse_deletePage1 drop2_def deleteForm_def
      valuesSet_def getReq_def postReq_def ok200_def deleteValues_def)

lemma run_delete_absent:
  "deleteRun deletePage keep ''5'' [''1''] =
     (Inl ErrCertDeleteInvalidID, \<lparr>dev = [''1''], trace = [EvGetCertIDs (Inr [''1''])]\<rparr>)"
  by (simp add: deleteRun_def DeleteCert_def run_defs)

lemma run_activate_sentinel:
  "activateRun settingsPage ''0'' [''1''] =
     (Inr (), \<lparr>dev = [''1''], trace =
        [EvDo (getReq ''/net/net/certificate/http.html'' []) (ok200 settingsPage),
         EvDo (postReq ''/net/net/certificate/http.html'' ''application/x-www-form-urlencoded''
                (UrlEncoded [(''pageid'', ''326''), (''CSRFToken'', ''tok''), (''Bb23'', ''0''),
                 (''Ba8c'', ''1''), (''Ba9e'', ''1'')])) (ok200 settingsPage),
         EvDo (postReq ''/net/net/certificate/http.html'' ''application/x-www-form-urlencoded''
                (UrlEncoded [(''pageid'', ''326''), (''CSRFToken'', ''tok''), (''http_page_mode'', ''5'')]))
              (ok200 settingsPage)]\<rparr>)"
  by (simp add: activateRun_def SetActiveCert_def run_defs parse_settingsPage keep_def activateForm_def
      confirmForm_def valuesSet_def getReq_def postReq_def ok200_def)

lemma run_activate_noselect:
  "activateRun settingsPageNoSelect ''1'' [''1''] =
     (Inl (ErrNew ''printer: http settings: failed to find certificate select field name''),
      \<lparr>dev = [''1''], trace =
        [EvDo (getReq ''/net/net/certificate/http.html'' []) (ok200 settingsPageNoSelect)]\<rparr>)"
  by (simp add: activateRun_def SetActiveCert_def run_defs parse_settingsPageNoSelect
      getReq_def ok200_def)

lemma run_upload_nofile:
  "uploadRun importPageNoFile add4 [''1''] =
     (Inl (ErrNew ''printer: upload: failed to find file input field name''),
      \<lparr>dev = [''1''], trace =
        [EvGetCertIDs (Inr [''1'']),
         EvDo (getReq urlCertImport []) (ok200 importPageNoFile)]\<rparr>)"
  by (simp add: uploadRun_def UploadNewCert_def run_defs parse_importPageNoFile
      getReq_def ok200_def)

lemma extends_fromResult [simp]: "extends (fromResult r)"
  by (simp add: extends_def fromResult_def)

lemma extends_failWith [simp]: "extends (failWith e)"
  by (simp add: extends_def failWith_def)

lemma extends_succeed [simp]: "extends (succeed x)"
  by (simp add: extends_def succeed_def)

lemma extends_callDo [simp]: "extends (callDo p req)"
  by (simp add: extends_def callDo_def split: prod.splits)

lemma extends_andThen [simp]:
  assumes "extends m" and "\<And>x. extends (f x)"
  shows "extends (andThen m f)"
  unfolding extends_def
proof
  fix w
  from assms(1) obtain r1 where r1: "trace (snd (m w)) = trace w @ r1" unfolding extends_def by blast
  show "\<exists>rest. trace (snd (andThen m f w)) = trace w @ rest"
  proof (cases "m w")
    case (Pair res w1)
    show ?thesis
    proof (cases res)
      case (Inl e)
      then show ?thesis using Pair r1 by (simp add: andThen_def)
    next
      case (Inr x)
      from assms(2)[of x] obtain r2 where "trace (snd (f x w1)) = trace w1 @ r2"
        unfolding extends_def by blast
      then show ?thesis using Pair Inr r1 by (simp add: andThen_def)
    qed
  qed
qed

lemma extends_if [simp]: "extends a \<Longrightarrow> extends b \<Longrightarrow> extends (if c then a else b)"
  by simp

lemma extends_doRequest [simp]: "extends (doRequest p m urlPath body adjust)"
  by (simp add: doRequest_def)

lemma posts_append [simp]: "posts (xs @ ys) = posts xs @ posts ys"
  by (induction xs rule: posts.induct) auto

lemma andThen_callDo_posts:
  assumes "\<And>x. extends (g x)" and "reqMethod req = POST"
  shows "req \<in> set (posts (trace (snd (andThen (callDo p req) g w))))"
proof -
  obtain pr w2 where c: "callDo p req w = (pr, w2)" by (cases "callDo p req w")
  then have t: "trace w2 = trace w @ [EvDo req pr]" by (rule callDo_trace)
  show ?thesis
  proof (cases pr)
    case (Inl e)
    then show ?thesis using c t assms(2) by (simp add: andThen_def)
  next
    case (Inr resp)
    from assms(1)[of resp] obtain rest where "trace (snd (g resp w2)) = trace w2 @ rest"
      unfolding extends_def by blast
    then show ?thesis using c t Inr assms(2) by (simp add: andThen_def)
  qed
qed

lemma andThen_ok: "m w = (Inr x, w1) \<Longrightarrow> andThen m f w = f x w1"
  by (simp add: andThen_def)

lemma andThen_fromResult_Inr: "andThen (fromResult (Inr x)) f w = f x w"
  by (simp add: andThen_def fromResult_def)

lemma activateForm_select:
  "map_of (activateForm tok f cid) (certSelectField f) =
     Some (if certSelectField f \<noteq> [] \<and>
              (httpsWebField f = certSelectField f \<or> httpsIppField f = certSelectField f)
           then ''1'' else cid)"
  by (auto simp: activateForm_def valuesSet_def Let_def update_conv')

lemma parseHttp_select_nonempty:
  "parseHttpSettingsFormFields b = Inr f \<Longrightarrow> certSelectField f \<noteq> []"
  by (auto simp: parseHttpSettingsFormFields_def Let_def split: if_splits)

lemma SetActiveCert_submits:
  assumes "getHttpSettings p w = (Inr b, w1)"
    and "parseBodyForCSRFToken p b = Inr tok"
    and "parseHttpSettingsFormFields b = Inr f"
    and "ParseRequestURI p (baseUrl p) = Inr u"
    and "NewRequestURL p POST (u\<lparr>path := urlHttpCertServerSettings\<rparr>) = Inr u'"
  shows "\<lparr>reqMethod = POST, reqUrl = u',
           contentType = ''application/x-www-form-urlencoded'',
           reqBody = UrlEncoded (activateForm tok f cid)\<rparr>
         \<in> set (posts (trace (snd (SetActiveCert p cid w))))"
proof -
  let ?req = "\<lparr>reqMethod = POST, reqUrl = u',
           contentType = ''application/x-www-form-urlencoded'',
           reqBody = UrlEncoded (activateForm tok f cid)\<rparr>"
  have d: "doRequest p POST urlHttpCertServerSettings (UrlEncoded (activateForm tok f cid))
             (setContentType ''application/x-www-form-urlencoded'') = callDo p ?req"
    using assms(4,5)
    by (auto simp: doRequest_def NewRequest_def andThen_def fromResult_def setContentType_def)
  have "\<exists>g. (\<forall>x. extends (g x)) \<and> SetActiveCert p cid w = andThen (callDo p ?req) g w1"
    apply (simp add: SetActiveCert_def andThen_ok[of "getHttpSettings p" w b w1, OF assms(1)]
        assms(2,3) andThen_fromResult_Inr d)
    apply (rule exI, rule conjI[rotated], rule refl)
    apply simp
    done
  then obtain g where g: "\<And>x. extends (g x)" and s: "SetActiveCert p cid w = andThen (callDo p ?req) g w1"
    by blast
  show ?thesis unfolding s by (rule andThen_callDo_posts[OF g]) simp
qed

lemma find_settingsPageNoSelect: "FindSubmatch selectRegex settingsPageNoSelect = []"
  by code_simp

lemma find_importPageNoFile: "FindSubmatch fileRegex importPageNoFile = []"
  by code_simp

lemma sublist_settingsPageNoSelect: "\<not> sublist ''<select'' settingsPageNoSelect"
  by code_simp

lemma sublist_importPageNoFile: \<open>\<not> sublist ''type="file"'' importPageNoFile\<close>
  by code_simp




lemma few_deletePage1: "fewHidden ''hidden_certificate_idx'' deletePage1"
  unfolding fewHidden_def by code_simp

lemma few_importPage: "fewHidden ''hidden_cert_import_password'' importPage"
  unfolding fewHidden_def by code_simp

lemma find_importPage:
  "FindSubmatch fileRegex importPage \<noteq> []" "FindSubmatch passwordRegex importPage \<noteq> []"
  by code_simp+

lemma run_upload_add4twice1:
  "uploadRun importPage add4twice [''1''] =
     (Inl errDeduce, \<lparr>dev = [''1'', ''4'', ''4''], trace =
        [EvGetCertIDs (Inr [''1'']),
         EvDo (getReq urlCertImport []) (ok200 importPage),
         EvDo (postReq urlCertImport ''multipart/form-data''
                (Multipart (importValues ''tok'' ''Ba40'' ''Ba41'' ''keycert''))) (ok200 importPage),
         EvSleep 10,
         EvGetCertIDs (Inr [''1'', ''4'', ''4''])]\<rparr>)"
  by (simp add: uploadRun_def UploadNewCert_def run_defs parse_importPage add4twice_def importForm_def
      deduceNewId_def getReq_def postReq_def ok200_def importValues_def)

lemma parseImport_missing:
  "FindSubmatch fileRegex b = [] \<or> FindSubmatch passwordRegex b = [] \<Longrightarrow>
     parseImportFormFields b = Inl (ErrNew ''printer: upload: failed to find file input field name'') \<or>
     parseImportFormFields b = Inl (ErrNew ''printer: upload: failed to find password input field name'')"
  by (auto simp: parseImportFormFields_def Let_def)

lemma pick12: "length sub = 3 \<Longrightarrow> sub ! 1 \<noteq> [] \<or> sub ! 2 \<noteq> [] \<Longrightarrow> pick sub 1 2 \<noteq> []"
  by (auto simp: pick_def)

lemma parseImport_result:
  assumes "FindSubmatch fileRegex b \<noteq> []" and "FindSubmatch passwordRegex b \<noteq> []"
  shows "parseImportFormFields b =
    Inr \<lparr>impHiddenField1 =
           (if fewHidden ''hidden_cert_import_password'' b then []
            else hiddenLoop ''hidden_cert_import_password'' (FindAllSubmatch hiddenRegex b) [] ! 0),
         impHiddenField2 =
           (if fewHidden ''hidden_cert_import_password'' b then []
            else hiddenLoop ''hidden_cert_import_password'' (FindAllSubmatch hiddenRegex b) [] ! 1),
         fileField = pick (FindSubmatch fileRegex b) 1 2,
         passwordField = pick (FindSubmatch passwordRegex b) 1 2\<rparr>
    \<and> pick (FindSubmatch fileRegex b) 1 2 \<noteq> [] \<and> pick (FindSubmatch passwordRegex b) 1 2 \<noteq> []"
proof -
  from assms(1) FindSubmatch_cases[of fileRegex b] have "isMatch fileRegex (FindSubmatch fileRegex b)"
    by blast
  from file_pick[OF this] have f0: "length (FindSubmatch fileRegex b) = 3"
    and f1: "FindSubmatch fileRegex b ! 1 \<noteq> [] \<or> FindSubmatch fileRegex b ! 2 \<noteq> []"
    by blast+
  note f = f0 pick12[OF f0 f1]
  from assms(2) FindSubmatch_cases[of passwordRegex b]
  have "isMatch passwordRegex (FindSubmatch passwordRegex b)" by blast
  from password_pick[OF this] have p0: "length (FindSubmatch passwordRegex b) = 3"
    and p1: "FindSubmatch passwordRegex b ! 1 \<noteq> [] \<or> FindSubmatch passwordRegex b ! 2 \<noteq> []"
    by blast+
  note p = p0 pick12[OF p0 p1]
  show ?thesis using f p by (simp add: parseImportFormFields_def Let_def fewHidden_def not_less)
qed

lemma parseDelete_few:
  "fewHidden ''hidden_certificate_idx'' b \<Longrightarrow>
     parseDeleteFormFields b = Inr \<lparr>hiddenField1 = [], hiddenField2 = []\<rparr>"
  by (simp add: parseDeleteFormFields_def fewHidden_def Let_def)

lemma deleteForm_none:
  "deleteForm tok \<lparr>hiddenField1 = [], hiddenField2 = []\<rparr> control cid = deleteValues tok control cid"
  by (simp add: deleteForm_def deleteValues_def valuesSet_def Let_def)

lemma importForm_none:
  "impHiddenField1 f = [] \<Longrightarrow> impHiddenField2 f = [] \<Longrightarrow>
     importForm tok f p12 = importValues tok (fileField f) (passwordField f) p12"
  by (simp add: importForm_def importValues_def)

lemma SetActiveCert_aborts:
  assumes "SetActiveCert p cid (start d) = (r, w')"
    and "EvDo greq (Inr gresp) \<in> set (trace w')" and "reqMethod greq = GET"
    and "readAll gresp = Inr b" and "FindSubmatch selectRegex b = []"
  shows "(\<exists>e. r = Inl e) \<and> posts (trace w') = []"
  using assms(1)
  by (cases rule: SetActiveCert_cases) (use assms(2-5) parseHttp_missing[of b] in auto)

lemma UploadNewCert_aborts:
  assumes "UploadNewCert p keyPem certPem (start d) = (r, w')"
    and "EvDo greq (Inr gresp) \<in> set (trace w')" and "reqMethod greq = GET"
    and "readAll gresp = Inr b"
    and "FindSubmatch fileRegex b = [] \<or> FindSubmatch passwordRegex b = []"
  shows "(\<exists>e. r = Inl e) \<and> posts (trace w') = []"
  using assms(1)
  by (cases rule: UploadNewCert_cases) (use assms(2-4) parseImport_missing[OF assms(5)] in auto)

lemma few_importPageNoFile: "fewHidden ''hidden_cert_import_password'' importPageNoFile"
  unfolding fewHidden_def by code_simp

lemma parse_settingsPageSameName: "parseHttpSettingsFormFields settingsPageSameName =
    Inr \<lparr>certSelectField = ''Bb23'', httpsWebField = ''Bb23'', httpsIppField = []\<rparr>"
  by code_simp

lemma extends_callGetCertIDs [simp]: "extends (callGetCertIDs p)"
  by (simp add: extends_def callGetCertIDs_def split: prod.splits)

lemma extends_sleep [simp]: "extends (sleep n)"
  by (simp add: extends_def sleep_def)

lemma extends_postDeleteForm [simp]: "extends (postDeleteForm p cid control b)"
  by (simp add: postDeleteForm_def)

lemma parseImport_exact:
  "parseImportFormFields b =
     (if FindSubmatch fileRegex b = []
      then Inl (ErrNew ''printer: upload: failed to find file input field name'')
      else if FindSubmatch passwordRegex b = []
      then Inl (ErrNew ''printer: upload: failed to find password input field name'')
      else Inr \<lparr>impHiddenField1 =
           (if fewHidden ''hidden_cert_import_password'' b then []
            else hiddenLoop ''hidden_cert_import_password'' (FindAllSubmatch hiddenRegex b) [] ! 0),
         impHiddenField2 =
           (if fewHidden ''hidden_cert_import_password'' b then []
            else hiddenLoop ''hidden_cert_import_password'' (FindAllSubmatch hiddenRegex b) [] ! 1),
         fileField = pick (FindSubmatch fileRegex b) 1 2,
         passwordField = pick (FindSubmatch passwordRegex b) 1 2\<rparr>)"
proof -
  have f: "length (FindSubmatch fileRegex b) = 3 \<and> pick (FindSubmatch fileRegex b) 1 2 \<noteq> []"
    if "FindSubmatch fileRegex b \<noteq> []"
  proof -
    from that FindSubmatch_cases[of fileRegex b] have "isMatch fileRegex (FindSubmatch fileRegex b)"
      by blast
    from file_pick[OF this] have f0: "length (FindSubmatch fileRegex b) = 3"
      and f1: "FindSubmatch fileRegex b ! 1 \<noteq> [] \<or> FindSubmatch fileRegex b ! 2 \<noteq> []"
      by blast+
    from f0 pick12[OF f0 f1] show ?thesis by simp
  qed
  show ?thesis
  proof (cases "FindSubmatch fileRegex b = []")
    case True
    then show ?thesis by (simp add: parseImportFormFields_def Let_def)
  next
    case False
    note ff = f[OF False]
    show ?thesis
    proof (cases "FindSubmatch passwordRegex b = []")
      case True
      then show ?thesis using False ff by (simp add: parseImportFormFields_def Let_def)
    next
      case pw: False
      from parseImport_result[OF False pw] False pw show ?thesis by simp
    qed
  qed
qed

lemma DeleteCert_form_after:
  assumes "DeleteCert p cid (start d) = (r, w')"
    and "trace w' = pre @ EvDo req (Inr resp) # EvDo preq pr # rest"
    and "readAll resp = Inr b" and "fewHidden ''hidden_certificate_idx'' b"
  shows "reqMethod preq = POST \<and>
         (\<exists>tok control. parseBodyForCSRFToken p b = Inr tok \<and> (control = ''1'' \<or> control = ''2'') \<and>
            reqBody preq = UrlEncoded (deleteValues tok control cid))"
  using assms(1)
proof (cases rule: DeleteCert_cases)
  case (post1 e ids greq gresp b0 tok f preq0 pr0)
  from post1(2) assms(2) have eq: "preq = preq0" "resp = gresp"
    by (auto simp: append_eq_Cons_conv)
  with assms(3) post1 have b: "b0 = b" by simp
  from parseDelete_few[OF assms(4)] post1 b have "f = \<lparr>hiddenField1 = [], hiddenField2 = []\<rparr>" by simp
  then show ?thesis using post1 eq b by (auto simp: deleteForm_none)
next
  case (post2 e ids greq gresp b0 tok f preq0 presp b2 tok2 f2 creq)
  from post2(2) assms(2) consider "preq = preq0" "resp = gresp" | "preq = creq" "resp = presp"
    by (auto simp: append_eq_Cons_conv)
  then show ?thesis
  proof cases
    case 1
    with assms(3) post2 have b: "b0 = b" by simp
    from parseDelete_few[OF assms(4)] post2 b have "f = \<lparr>hiddenField1 = [], hiddenField2 = []\<rparr>" by simp
    then show ?thesis using post2 1 b by (auto simp: deleteForm_none)
  next
    case 2
    with assms(3) post2 have b: "b2 = b" by simp
    from parseDelete_few[OF assms(4)] post2 b have "f2 = \<lparr>hiddenField1 = [], hiddenField2 = []\<rparr>" by simp
    then show ?thesis using post2 2 b by (auto simp: deleteForm_none)
  qed
next
  case (settled ids greq gresp b0 tok f preq0 presp b2 tok2 f2 creq cresp rr)
  from settled(1) assms(2) consider "preq = preq0" "resp = gresp" | "preq = creq" "resp = presp"
    by (auto simp: append_eq_Cons_conv)
  then show ?thesis
  proof cases
    case 1
    with assms(3) settled have b: "b0 = b" by simp
    from parseDelete_few[OF assms(4)] settled b have "f = \<lparr>hiddenField1 = [], hiddenField2 = []\<rparr>" by simp
    then show ?thesis using settled 1 b by (auto simp: deleteForm_none)
  next
    case 2
    with assms(3) settled have b: "b2 = b" by simp
    from parseDelete_few[OF assms(4)] settled b have "f2 = \<lparr>hiddenField1 = [], hiddenField2 = []\<rparr>" by simp
    then show ?thesis using settled 2 b by (auto simp: deleteForm_none)
  qed
qed (use assms(2) in \<open>auto simp: start_def append_eq_Cons_conv\<close>)

lemma UploadNewCert_form_after:
  assumes "UploadNewCert p keyPem certPem (start d) = (r, w')"
    and "trace w' = pre @ EvDo req (Inr resp) # EvDo preq pr # rest"
    and "readAll resp = Inr b" and "fewHidden ''hidden_cert_import_password'' b"
  shows "reqMethod preq = POST \<and>
         (\<exists>tok p12. parseBodyForCSRFToken p b = Inr tok \<and>
            reqBody preq = Multipart (importValues tok (pick (FindSubmatch fileRegex b) 1 2)
                                        (pick (FindSubmatch passwordRegex b) 1 2) p12))"
  using assms(1)
proof (cases rule: UploadNewCert_cases)
  case (posted e orig greq gresp b0 tok f p12 preq0 pr0)
  from posted(2) assms(2) have eq: "preq = preq0" "resp = gresp"
    by (auto simp: append_eq_Cons_conv)
  with assms(3) posted have b: "b0 = b" by simp
  from posted b have pf: "parseImportFormFields b = Inr f" by simp
  then have "f = \<lparr>impHiddenField1 = [], impHiddenField2 = [],
         fileField = pick (FindSubmatch fileRegex b) 1 2,
         passwordField = pick (FindSubmatch passwordRegex b) 1 2\<rparr>"
    using assms(4) by (subst (asm) parseImport_exact) (auto split: if_splits)
  then show ?thesis using posted eq b by (auto simp: importForm_none)
next
  case (settled orig greq gresp b0 tok f p12 preq0 presp rr)
  from settled(1) assms(2) have eq: "preq = preq0" "resp = gresp"
    by (auto simp: append_eq_Cons_conv)
  with assms(3) settled have b: "b0 = b" by simp
  from settled b have pf: "parseImportFormFields b = Inr f" by simp
  then have "f = \<lparr>impHiddenField1 = [], impHiddenField2 = [],
         fileField = pick (FindSubmatch fileRegex b) 1 2,
         passwordField = pick (FindSubmatch passwordRegex b) 1 2\<rparr>"
    using assms(4) by (subst (asm) parseImport_exact) (auto split: if_splits)
  then show ?thesis using settled eq b by (auto simp: importForm_none)
qed (use assms(2) in \<open>auto simp: start_def append_eq_Cons_conv\<close>)

lemma postDeleteForm_few:
  assumes "parseBodyForCSRFToken p b = Inr tok" and "fewHidden ''hidden_certificate_idx'' b"
    and "ParseRequestURI p (baseUrl p) = Inr u"
    and "NewRequestURL p POST (u\<lparr>path := urlCertDelete\<rparr>) = Inr u'"
  shows "postDeleteForm p cid control b =
         callDo p \<lparr>reqMethod = POST, reqUrl = u',
           contentType = ''application/x-www-form-urlencoded'',
           reqBody = UrlEncoded (deleteValues tok control cid)\<rparr>"
  using assms
  by (auto simp: postDeleteForm_def doRequest_def NewRequest_def andThen_def fromResult_def
      setContentType_def parseDelete_few deleteForm_none fun_eq_iff)

lemma DeleteCert_submits:
  assumes "cid \<noteq> []" and "cid \<noteq> ''0''"
    and "callGetCertIDs p w = (Inr ids, w1)" and "cid \<in> set ids"
    and "doRequest p GET urlCertDelete NoBody (setQuery ''idx'' cid) w1 = (Inr resp, w2)"
    and "readAll resp = Inr b" and "statusCode resp = 200"
    and "parseBodyForCSRFToken p b = Inr tok" and "fewHidden ''hidden_certificate_idx'' b"
    and "ParseRequestURI p (baseUrl p) = Inr u"
    and "NewRequestURL p POST (u\<lparr>path := urlCertDelete\<rparr>) = Inr u'"
  shows "\<lparr>reqMethod = POST, reqUrl = u',
           contentType = ''application/x-www-form-urlencoded'',
           reqBody = UrlEncoded (deleteValues tok ''1'' cid)\<rparr>
         \<in> set (posts (trace (snd (DeleteCert p cid w))))"
proof -
  let ?req = "\<lparr>reqMethod = POST, reqUrl = u',
           contentType = ''application/x-www-form-urlencoded'',
           reqBody = UrlEncoded (deleteValues tok ''1'' cid)\<rparr>"
  note pf = postDeleteForm_few[OF assms(8,9,10,11)]
  have "\<exists>g. (\<forall>x. extends (g x)) \<and> DeleteCert p cid w = andThen (callDo p ?req) g w2"
    apply (simp add: DeleteCert_def assms(1,2,4)
        andThen_ok[of "callGetCertIDs p" w ids w1, OF assms(3)]
        andThen_ok[of "doRequest p GET urlCertDelete NoBody (setQuery ''idx'' cid)" w1 resp w2, OF assms(5)]
        assms(6,7) andThen_fromResult_Inr pf)
    apply (rule exI, rule conjI[rotated], rule refl)
    apply simp
    done
  then obtain g where g: "\<And>x. extends (g x)" and s: "DeleteCert p cid w = andThen (callDo p ?req) g w2"
    by blast
  show ?thesis unfolding s by (rule andThen_callDo_posts[OF g]) simp
qed

lemma UploadNewCert_submits:
  assumes "makeModernPfx p keyPem certPem [] = Inr p12"
    and "callGetCertIDs p w = (Inr orig, w1)"
    and "doRequest p GET urlCertImport NoBody (\<lambda>req. req) w1 = (Inr resp, w2)"
    and "readAll resp = Inr b" and "statusCode resp = 200"
    and "parseBodyForCSRFToken p b = Inr tok" and "fewHidden ''hidden_cert_import_password'' b"
    and "FindSubmatch fileRegex b \<noteq> []" and "FindSubmatch passwordRegex b \<noteq> []"
    and "ParseRequestURI p (baseUrl p) = Inr u"
    and "NewRequestURL p POST (u\<lparr>path := urlCertImport\<rparr>) = Inr u'"
  shows "\<lparr>reqMethod = POST, reqUrl = u', contentType = ''multipart/form-data'',
           reqBody = Multipart (importValues tok (pick (FindSubmatch fileRegex b) 1 2)
                                  (pick (FindSubmatch passwordRegex b) 1 2) p12)\<rparr>
         \<in> set (posts (trace (snd (UploadNewCert p keyPem certPem w))))"
proof -
  define fileName where "fileName = pick (FindSubmatch fileRegex b) 1 2"
  define passwordName where "passwordName = pick (FindSubmatch passwordRegex b) 1 2"
  let ?req = "\<lparr>reqMethod = POST, reqUrl = u', contentType = ''multipart/form-data'',
           reqBody = Multipart (importValues tok fileName passwordName p12)\<rparr>"
  let ?f = "\<lparr>impHiddenField1 = [], impHiddenField2 = [],
         fileField = fileName, passwordField = passwordName\<rparr>"
  have pi: "parseImportFormFields b = Inr ?f"
    using assms(7,8,9) by (simp add: parseImport_exact fileName_def passwordName_def)
  have d: "doRequest p POST urlCertImport (Multipart (importForm tok ?f p12))
             (setContentType ''multipart/form-data'') = callDo p ?req"
    using assms(10,11)
    by (auto simp: doRequest_def NewRequest_def andThen_def fromResult_def setContentType_def
        importForm_none)
  have "\<exists>g. (\<forall>x. extends (g x)) \<and> UploadNewCert p keyPem certPem w = andThen (callDo p ?req) g w2"
    apply (simp add: UploadNewCert_def assms(1)
        andThen_ok[of "callGetCertIDs p" w orig w1, OF assms(2)]
        andThen_ok[of "doRequest p GET urlCertImport NoBody (\<lambda>req. req)" w1 resp w2, OF assms(3)]
        assms(4,5,6) pi andThen_fromResult_Inr d)
    apply (rule exI, rule conjI[rotated], rule refl)
    apply simp
    done
  then obtain g where g: "\<And>x. extends (g x)"
    and s: "UploadNewCert p keyPem certPem w = andThen (callDo p ?req) g w2"
    by blast
  have "?req \<in> set (posts (trace (snd (UploadNewCert p keyPem certPem w))))"
    unfolding s by (rule andThen_callDo_posts[OF g]) simp
  then show ?thesis unfolding fileName_def passwordName_def .
qed

lemma repeated_entry:
  assumes "i < j" "j < length xs" "xs ! i = xs ! j" "P (xs ! j)"
  shows "card (set (filter P xs)) < length (filter P xs)"
proof -
  have xs: "xs = take j xs @ xs ! j # drop (Suc j) xs"
    using assms(2) by (rule id_take_nth_drop)
  have "xs ! i \<in> set (take j xs)"
    using assms(1,2) by (auto simp: in_set_conv_nth intro!: exI[of _ i])
  then have "xs ! j \<in> set (filter P (take j xs))"
    using assms(3,4) by simp
  moreover have "filter P xs = filter P (take j xs) @ xs ! j # filter P (drop (Suc j) xs)"
    using assms(4) by (subst xs) simp
  ultimately have "\<not> distinct (filter P xs)" by simp
  then have "card (set (filter P xs)) \<noteq> length (filter P xs)"
    using card_distinct by blast
  with card_length[of "filter P xs"] show ?thesis by simp
qed

lemma hidden_importPageNoFile:
  "hiddenLoop ''hidden_cert_import_password'' (FindAllSubmatch hiddenRegex importPageNoFile) [] = [''Bb0a'']"
  by code_simp

lemma pick_importPage:
  "pick (FindSubmatch fileRegex importPage) 1 2 = ''Ba40''"
  "pick (FindSubmatch passwordRegex importPage) 1 2 = ''Ba41''"
  by code_simp+

section \<open>The claims\<close>

text \<open>C1, as the code has it. \<^verbatim>\<open>UploadNewCert\<close> counts the entries of the post-snapshot
  list whose ID is absent from the baseline list, an ID listed twice counting twice. For
  every run that took the baseline snapshot \<open>orig\<close>, posted the upload, slept the settle
  delay and took the post-snapshot \<open>post\<close>: if exactly one entry of \<open>post\<close> is absent
  from \<open>orig\<close> the run returns its ID with no error; if more than one entry is, it
  returns the ambiguity error; if none is, it returns the empty ID with no error. When no
  ID stands twice in \<open>post\<close>, the entries are the IDs: exactly one new ID is returned,
  more than one new ID gives the ambiguity error; and no new ID gives the empty ID, whether
  or not IDs are repeated.\<close>

theorem UploadNewCert_new_entries:
  assumes "UploadNewCert p keyPem certPem (start d) = (r, w')"
    and "hd (trace w') = EvGetCertIDs (Inr orig)"
    and "EvSleep 10 \<in> set (trace w')"
    and "last (trace w') = EvGetCertIDs (Inr post)"
  shows "(filter (\<lambda>x. x \<notin> set orig) post = [x] \<longrightarrow> r = Inr x) \<and>
         (length (filter (\<lambda>x. x \<notin> set orig) post) > 1 \<longrightarrow> r = Inl errDeduce) \<and>
         (filter (\<lambda>x. x \<notin> set orig) post = [] \<longrightarrow> r = Inr []) \<and>
         (distinct post \<and> set post - set orig = {x} \<longrightarrow> r = Inr x) \<and>
         (distinct post \<and> card (set post - set orig) > 1 \<longrightarrow> r = Inl errDeduce) \<and>
         (set post - set orig = {} \<longrightarrow> r = Inr [])"
proof -
  have r: "r = deduceNewId orig post" by (rule UploadNewCert_settled[OF assms])
  have e: "set post - set orig = {} \<Longrightarrow> filter (\<lambda>x. x \<notin> set orig) post = []"
    by (auto simp: filter_empty_conv)
  show ?thesis
    using new_entries_distinct(1)[of post orig] new_entries_distinct(2)[of post orig x] e
    unfolding r deduceNewId_filter by auto
qed

text \<open>The upload scenarios of the specification, from the baseline 1, 2: the device reports
  1, 2, 4 after the upload and the run returns 4; it reports 1, 2, 4, 5 and the run returns
  the ambiguity error; it reports 1, 2 unchanged and the run returns the empty ID.\<close>

theorem UploadNewCert_new_entries_witness:
  "hd (trace (snd (uploadRun importPage add4 [''1'', ''2'']))) = EvGetCertIDs (Inr [''1'', ''2'']) \<and>
   EvSleep 10 \<in> set (trace (snd (uploadRun importPage add4 [''1'', ''2'']))) \<and>
   last (trace (snd (uploadRun importPage add4 [''1'', ''2'']))) = EvGetCertIDs (Inr [''1'', ''2'', ''4'']) \<and>
   filter (\<lambda>x. x \<notin> set [''1'', ''2'']) [''1'', ''2'', ''4''] = [''4''] \<and>
   distinct [''1'', ''2'', ''4''] \<and> set [''1'', ''2'', ''4''] - set [''1'', ''2''] = {''4''} \<and>
   fst (uploadRun importPage add4 [''1'', ''2'']) = Inr ''4'' \<and>
   hd (trace (snd (uploadRun importPage add4and5 [''1'', ''2'']))) = EvGetCertIDs (Inr [''1'', ''2'']) \<and>
   EvSleep 10 \<in> set (trace (snd (uploadRun importPage add4and5 [''1'', ''2'']))) \<and>
   last (trace (snd (uploadRun importPage add4and5 [''1'', ''2''])))
     = EvGetCertIDs (Inr [''1'', ''2'', ''4'', ''5'']) \<and>
   length (filter (\<lambda>x. x \<notin> set [''1'', ''2'']) [''1'', ''2'', ''4'', ''5'']) > 1 \<and>
   fst (uploadRun importPage add4and5 [''1'', ''2'']) = Inl errDeduce \<and>
   hd (trace (snd (uploadRun importPage keep [''1'', ''2'']))) = EvGetCertIDs (Inr [''1'', ''2'']) \<and>
   EvSleep 10 \<in> set (trace (snd (uploadRun importPage keep [''1'', ''2'']))) \<and>
   last (trace (snd (uploadRun importPage keep [''1'', ''2''])))
     = EvGetCertIDs (Inr [''1'', ''2'']) \<and>
   filter (\<lambda>x. x \<notin> set [''1'', ''2'']) [''1'', ''2''] = [] \<and>
   fst (uploadRun importPage keep [''1'', ''2'']) = Inr []"
proof -
  let ?a = "uploadRun importPage add4 [''1'', ''2'']"
  let ?b = "uploadRun importPage add4and5 [''1'', ''2'']"
  let ?c = "uploadRun importPage keep [''1'', ''2'']"
  have ra: "UploadNewCert (testPrinter importPage add4) ''key'' ''cert'' (start [''1'', ''2'']) = (fst ?a, snd ?a)"
    and rb: "UploadNewCert (testPrinter importPage add4and5) ''key'' ''cert'' (start [''1'', ''2'']) = (fst ?b, snd ?b)"
    and rc: "UploadNewCert (testPrinter importPage keep) ''key'' ''cert'' (start [''1'', ''2'']) = (fst ?c, snd ?c)"
    by (simp_all add: uploadRun_def)
  have a: "hd (trace (snd ?a)) = EvGetCertIDs (Inr [''1'', ''2''])"
    "EvSleep 10 \<in> set (trace (snd ?a))"
    "last (trace (snd ?a)) = EvGetCertIDs (Inr [''1'', ''2'', ''4''])"
    by (simp_all add: run_upload_add4)
  have b: "hd (trace (snd ?b)) = EvGetCertIDs (Inr [''1'', ''2''])"
    "EvSleep 10 \<in> set (trace (snd ?b))"
    "last (trace (snd ?b)) = EvGetCertIDs (Inr [''1'', ''2'', ''4'', ''5''])"
    by (simp_all add: run_upload_add4and5)
  have c: "hd (trace (snd ?c)) = EvGetCertIDs (Inr [''1'', ''2''])"
    "EvSleep 10 \<in> set (trace (snd ?c))"
    "last (trace (snd ?c)) = EvGetCertIDs (Inr [''1'', ''2''])"
    by (simp_all add: run_upload_keep)
  have f: "filter (\<lambda>x. x \<notin> set [''1'', ''2'']) [''1'', ''2'', ''4''] = [''4'']"
    "length (filter (\<lambda>x. x \<notin> set [''1'', ''2'']) [''1'', ''2'', ''4'', ''5'']) > 1"
    "filter (\<lambda>x. x \<notin> set [''1'', ''2'']) [''1'', ''2''] = []"
    by simp_all
  from UploadNewCert_new_entries[OF ra a, of "''4''"] f(1) have 1: "fst ?a = Inr ''4''" by blast
  from UploadNewCert_new_entries[OF rb b] f(2) have 2: "fst ?b = Inl errDeduce" by blast
  from UploadNewCert_new_entries[OF rc c] f(3) have 3: "fst ?c = Inr []" by blast
  have g: "distinct [''1'', ''2'', ''4'']" "set [''1'', ''2'', ''4''] - set [''1'', ''2''] = {''4''}"
    by auto
  from a b c f g 1 2 3 show ?thesis by blast
qed

text \<open>C1 as stated fails when the device lists the new ID twice: baseline 1, 2 and
  post-snapshot 1, 2, 4, 4 differ in exactly one ID, 4, and the run returns the ambiguity
  error, not 4.\<close>

theorem UploadNewCert_one_new_id_counterexample:
  "set [''1'', ''2'', ''4'', ''4''] - set [''1'', ''2''] = {''4''} \<and>
   hd (trace (snd (uploadRun importPage add4twice [''1'', ''2'']))) = EvGetCertIDs (Inr [''1'', ''2'']) \<and>
   EvSleep 10 \<in> set (trace (snd (uploadRun importPage add4twice [''1'', ''2'']))) \<and>
   last (trace (snd (uploadRun importPage add4twice [''1'', ''2''])))
     = EvGetCertIDs (Inr [''1'', ''2'', ''4'', ''4'']) \<and>
   fst (uploadRun importPage add4twice [''1'', ''2'']) = Inl errDeduce \<and>
   fst (uploadRun importPage add4twice [''1'', ''2'']) \<noteq> Inr ''4''"
  by (auto simp: run_upload_add4twice)

text \<open>C2. When the certificate selector is not found in the settings page (the pattern of the
  \<^verbatim>\<open><select>\<close> element has no match, as in every body without the text \<^verbatim>\<open><select\<close>),
  \<^verbatim>\<open>parseHttpSettingsFormFields\<close> returns its discovery error and no field set; when the
  file input or the password input is not found in the import page (as in every body
  without \<^verbatim>\<open>type="file"\<close> or without \<^verbatim>\<open>type="password"\<close>),
  \<^verbatim>\<open>parseImportFormFields\<close> returns one of its two discovery errors and no field set.
  A run of \<^verbatim>\<open>SetActiveCert\<close> or of \<^verbatim>\<open>UploadNewCert\<close> that fetched such a page returns
  an error and its trace holds no POST.\<close>

theorem required_field_missing:
  \<open>(FindSubmatch selectRegex bs = [] \<longrightarrow>
      parseHttpSettingsFormFields bs =
        Inl (ErrNew ''printer: http settings: failed to find certificate select field name'')) \<and>
   (\<not> sublist ''<select'' bs \<longrightarrow> FindSubmatch selectRegex bs = []) \<and>
   (FindSubmatch fileRegex bi = [] \<or> FindSubmatch passwordRegex bi = [] \<longrightarrow>
      parseImportFormFields bi = Inl (ErrNew ''printer: upload: failed to find file input field name'') \<or>
      parseImportFormFields bi = Inl (ErrNew ''printer: upload: failed to find password input field name'')) \<and>
   (\<not> sublist ''type="file"'' bi \<or> \<not> sublist ''type="password"'' bi \<longrightarrow>
      FindSubmatch fileRegex bi = [] \<or> FindSubmatch passwordRegex bi = []) \<and>
   (SetActiveCert p cid (start d) = (r, w') \<and> EvDo greq (Inr gresp) \<in> set (trace w') \<and>
    reqMethod greq = GET \<and> readAll gresp = Inr bs \<and> FindSubmatch selectRegex bs = [] \<longrightarrow>
      (\<exists>e. r = Inl e) \<and> posts (trace w') = []) \<and>
   (UploadNewCert p' keyPem certPem (start d') = (r', w'') \<and> EvDo greq' (Inr gresp') \<in> set (trace w'') \<and>
    reqMethod greq' = GET \<and> readAll gresp' = Inr bi \<and>
    (FindSubmatch fileRegex bi = [] \<or> FindSubmatch passwordRegex bi = []) \<longrightarrow>
      (\<exists>e. r' = Inl e) \<and> posts (trace w'') = [])\<close>
proof (intro conjI impI)
  assume "FindSubmatch selectRegex bs = []"
  then show "parseHttpSettingsFormFields bs =
        Inl (ErrNew ''printer: http settings: failed to find certificate select field name'')"
    by (rule parseHttp_missing)
next
  assume "\<not> sublist ''<select'' bs"
  then show "FindSubmatch selectRegex bs = []"
    using FindSubmatch_mandatory[OF _ mandatory_lits(1), of bs] by blast
next
  assume "FindSubmatch fileRegex bi = [] \<or> FindSubmatch passwordRegex bi = []"
  then show "parseImportFormFields bi = Inl (ErrNew ''printer: upload: failed to find file input field name'') \<or>
      parseImportFormFields bi = Inl (ErrNew ''printer: upload: failed to find password input field name'')"
    by (rule parseImport_missing)
next
  assume \<open>\<not> sublist ''type="file"'' bi \<or> \<not> sublist ''type="password"'' bi\<close>
  then show "FindSubmatch fileRegex bi = [] \<or> FindSubmatch passwordRegex bi = []"
    using FindSubmatch_mandatory[OF _ mandatory_lits(2), of bi]
      FindSubmatch_mandatory[OF _ mandatory_lits(3), of bi] by blast
next
  assume a: "SetActiveCert p cid (start d) = (r, w') \<and> EvDo greq (Inr gresp) \<in> set (trace w') \<and>
    reqMethod greq = GET \<and> readAll gresp = Inr bs \<and> FindSubmatch selectRegex bs = []"
  from SetActiveCert_aborts[of p cid d r w' greq gresp bs] a
  show "\<exists>e. r = Inl e" and "posts (trace w') = []" by blast+
next
  assume a: "UploadNewCert p' keyPem certPem (start d') = (r', w'') \<and> EvDo greq' (Inr gresp') \<in> set (trace w'') \<and>
    reqMethod greq' = GET \<and> readAll gresp' = Inr bi \<and>
    (FindSubmatch fileRegex bi = [] \<or> FindSubmatch passwordRegex bi = [])"
  from UploadNewCert_aborts[of p' keyPem certPem d' r' w'' greq' gresp' bi] a
  show "\<exists>e. r' = Inl e" and "posts (trace w'') = []" by blast+
qed

theorem required_field_missing_witness:
  \<open>FindSubmatch selectRegex settingsPageNoSelect = [] \<and>
   \<not> sublist ''<select'' settingsPageNoSelect \<and>
   FindSubmatch fileRegex importPageNoFile = [] \<and>
   \<not> sublist ''type="file"'' importPageNoFile \<and>
   EvDo (getReq ''/net/net/certificate/http.html'' []) (ok200 settingsPageNoSelect)
     \<in> set (trace (snd (activateRun settingsPageNoSelect ''1'' [''1'']))) \<and>
   EvDo (getReq urlCertImport []) (ok200 importPageNoFile)
     \<in> set (trace (snd (uploadRun importPageNoFile add4 [''1'']))) \<and>
   parseHttpSettingsFormFields settingsPageNoSelect =
     Inl (ErrNew ''printer: http settings: failed to find certificate select field name'') \<and>
   parseImportFormFields importPageNoFile =
     Inl (ErrNew ''printer: upload: failed to find file input field name'') \<and>
   fst (activateRun settingsPageNoSelect ''1'' [''1'']) =
     Inl (ErrNew ''printer: http settings: failed to find certificate select field name'') \<and>
   posts (trace (snd (activateRun settingsPageNoSelect ''1'' [''1'']))) = [] \<and>
   fst (uploadRun importPageNoFile add4 [''1'']) =
     Inl (ErrNew ''printer: upload: failed to find file input field name'') \<and>
   posts (trace (snd (uploadRun importPageNoFile add4 [''1'']))) = []\<close>
proof -
  let ?a = "activateRun settingsPageNoSelect ''1'' [''1'']"
  let ?u = "uploadRun importPageNoFile add4 [''1'']"
  let ?rs = "\<lparr>statusCode = 200, readAll = Inr settingsPageNoSelect\<rparr>"
  let ?ri = "\<lparr>statusCode = 200, readAll = Inr importPageNoFile\<rparr>"
  note th = required_field_missing[of settingsPageNoSelect importPageNoFile
      "testPrinter settingsPageNoSelect keep" "''1''" "[''1'']" "fst ?a" "snd ?a"
      "getReq ''/net/net/certificate/http.html'' []" ?rs
      "testPrinter importPageNoFile add4" "''key''" "''cert''" "[''1'']" "fst ?u" "snd ?u"
      "getReq urlCertImport []" ?ri]
  have ra: "SetActiveCert (testPrinter settingsPageNoSelect keep) ''1'' (start [''1'']) = (fst ?a, snd ?a)"
    and ru: "UploadNewCert (testPrinter importPageNoFile add4) ''key'' ''cert'' (start [''1'']) = (fst ?u, snd ?u)"
    by (simp_all add: activateRun_def uploadRun_def)
  have ea: "EvDo (getReq ''/net/net/certificate/http.html'' []) (Inr ?rs) \<in> set (trace (snd ?a))"
    and eu: "EvDo (getReq urlCertImport []) (Inr ?ri) \<in> set (trace (snd ?u))"
    by (simp_all add: run_activate_noselect run_upload_nofile ok200_def)
  have g: "reqMethod (getReq ''/net/net/certificate/http.html'' []) = GET" "reqMethod (getReq urlCertImport []) = GET"
    "readAll ?rs = Inr settingsPageNoSelect" "readAll ?ri = Inr importPageNoFile"
    by (simp_all add: getReq_def)
  from th find_settingsPageNoSelect
  have c1: "parseHttpSettingsFormFields settingsPageNoSelect =
     Inl (ErrNew ''printer: http settings: failed to find certificate select field name'')"
    by blast
  from th ra ea g find_settingsPageNoSelect
  have c2: "posts (trace (snd ?a)) = []" by blast
  from th ru eu g find_importPageNoFile
  have c3: "posts (trace (snd ?u)) = []" by blast
  have c4: "fst ?a = Inl (ErrNew ''printer: http settings: failed to find certificate select field name'')"
    "fst ?u = Inl (ErrNew ''printer: upload: failed to find file input field name'')"
    by (simp_all add: run_activate_noselect run_upload_nofile)
  from c1 c2 c3 c4 ea eu find_settingsPageNoSelect find_importPageNoFile
    sublist_settingsPageNoSelect sublist_importPageNoFile parse_importPageNoFile
  show ?thesis by (simp add: ok200_def)
qed



text \<open>C4. \<^verbatim>\<open>DeleteCert\<close> called with the empty string or with the sentinel ID \<^verbatim>\<open>"0"\<close>
  returns \<^verbatim>\<open>errCertDeleteInvalidID\<close> and leaves the world as it was: no event is added
  to the trace, so no HTTP request is made and the certificate IDs are not listed.\<close>

theorem DeleteCert_rejects_empty_and_sentinel:
  "DeleteCert p [] w = (Inl ErrCertDeleteInvalidID, w) \<and>
   DeleteCert p ''0'' w = (Inl ErrCertDeleteInvalidID, w) \<and>
   trace (snd (DeleteCert p [] w)) = trace w \<and>
   trace (snd (DeleteCert p ''0'' w)) = trace w"
  by (simp add: DeleteCert_def failWith_def)

text \<open>C5. For every run of \<^verbatim>\<open>DeleteCert\<close> that reached the settle interval and then listed
  the certificate IDs again: two forms were posted before; if the target ID is still in
  the list the run returns the error \<open>errStillExists\<close>, which is none of the status-code
  errors, none of the errors passed on from the transport or another collaborator, and not
  the validation error; if the ID is no longer in the list the run returns success.\<close>

theorem DeleteCert_verification:
  assumes "DeleteCert p cid (start d) = (r, w')"
    and "EvSleep 10 \<in> set (trace w')"
    and "last (trace w') = EvGetCertIDs (Inr ids)"
  shows "(cid \<in> set ids \<longrightarrow> r = Inl errStillExists) \<and>
         (cid \<notin> set ids \<longrightarrow> r = Inr ()) \<and>
         length (posts (trace w')) = 2 \<and>
         errStillExists \<noteq> ErrStatus msg code \<and> errStillExists \<noteq> ErrCollab msg \<and>
         errStillExists \<noteq> ErrCertDeleteInvalidID"
  using assms(1)
  by (cases rule: DeleteCert_cases) (use assms(2-3) in \<open>auto simp: start_def errStillExists_def\<close>)

text \<open>The delete scenario of the specification: the device reports 1, 2, 3 and the caller
  deletes 2. A device that still reports 1, 2, 3 after the settle interval gives the
  verification error; a device that reports 1, 3 gives success.\<close>

theorem DeleteCert_verification_witness:
  "EvSleep 10 \<in> set (trace (snd (deleteRun deletePage keep ''2'' [''1'', ''2'', ''3'']))) \<and>
   last (trace (snd (deleteRun deletePage keep ''2'' [''1'', ''2'', ''3''])))
     = EvGetCertIDs (Inr [''1'', ''2'', ''3'']) \<and>
   fst (deleteRun deletePage keep ''2'' [''1'', ''2'', ''3'']) = Inl errStillExists \<and>
   EvSleep 10 \<in> set (trace (snd (deleteRun deletePage drop2 ''2'' [''1'', ''2'', ''3'']))) \<and>
   last (trace (snd (deleteRun deletePage drop2 ''2'' [''1'', ''2'', ''3''])))
     = EvGetCertIDs (Inr [''1'', ''3'']) \<and>
   fst (deleteRun deletePage drop2 ''2'' [''1'', ''2'', ''3'']) = Inr ()"
proof -
  let ?k = "deleteRun deletePage keep ''2'' [''1'', ''2'', ''3'']"
  let ?d = "deleteRun deletePage drop2 ''2'' [''1'', ''2'', ''3'']"
  have k: "DeleteCert (testPrinter deletePage keep) ''2'' (start [''1'', ''2'', ''3'']) = (fst ?k, snd ?k)"
    and d: "DeleteCert (testPrinter deletePage drop2) ''2'' (start [''1'', ''2'', ''3'']) = (fst ?d, snd ?d)"
    by (simp_all add: deleteRun_def)
  have k1: "EvSleep 10 \<in> set (trace (snd ?k))"
    and k2: "last (trace (snd ?k)) = EvGetCertIDs (Inr [''1'', ''2'', ''3''])"
    by (simp_all add: run_delete_keep)
  have d1: "EvSleep 10 \<in> set (trace (snd ?d))"
    and d2: "last (trace (snd ?d)) = EvGetCertIDs (Inr [''1'', ''3''])"
    by (simp_all add: run_delete_drop2)
  from DeleteCert_verification[OF k k1 k2] have "fst ?k = Inl errStillExists" by simp
  moreover from DeleteCert_verification[OF d d1 d2] have "fst ?d = Inr ()" by simp
  ultimately show ?thesis using k1 k2 d1 d2 by blast
qed

text \<open>C6, as the code has it. The validation error for an empty ID or for the sentinel
  \<^verbatim>\<open>"0"\<close> is returned before any interaction with the device. The validation error for
  an ID that is absent from the device's list is returned after one interaction, the
  listing of the certificate IDs that the check needs, and before any request for the
  delete page.\<close>

theorem DeleteCert_validation_order:
  "(cid = [] \<or> cid = ''0'' \<longrightarrow> DeleteCert p cid w = (Inl ErrCertDeleteInvalidID, w)) \<and>
   (cid \<noteq> [] \<and> cid \<noteq> ''0'' \<and> getCertIDs p (dev w) = (Inr ids, d') \<and> cid \<notin> set ids \<longrightarrow>
      DeleteCert p cid w =
        (Inl ErrCertDeleteInvalidID, \<lparr>dev = d', trace = trace w @ [EvGetCertIDs (Inr ids)]\<rparr>))"
  by (auto simp: DeleteCert_def failWith_def andThen_def callGetCertIDs_def)

theorem DeleteCert_validation_order_witness:
  "DeleteCert (testPrinter deletePage keep) ''0'' (start [''1'']) = (Inl ErrCertDeleteInvalidID, start [''1'']) \<and>
   ''5'' \<noteq> [] \<and> ''5'' \<noteq> ''0'' \<and>
   getCertIDs (testPrinter deletePage keep) (dev (start [''1''])) = (Inr [''1''], [''1'']) \<and>
   ''5'' \<notin> set [''1''] \<and>
   DeleteCert (testPrinter deletePage keep) ''5'' (start [''1'']) =
     (Inl ErrCertDeleteInvalidID,
      \<lparr>dev = [''1''], trace = trace (start [''1'']) @ [EvGetCertIDs (Inr [''1''])]\<rparr>)"
proof -
  have g: "getCertIDs (testPrinter deletePage keep) (dev (start [''1''])) = (Inr [''1''], [''1''])"
    by (simp add: testPrinter_def start_def)
  have n: "''5'' \<noteq> []" "''5'' \<noteq> ''0''" "''5'' \<notin> set [''1'']" by simp_all
  from DeleteCert_validation_order[of "''0''" "testPrinter deletePage keep" "start [''1'']"]
  have a: "DeleteCert (testPrinter deletePage keep) ''0'' (start [''1'']) = (Inl ErrCertDeleteInvalidID, start [''1''])"
    by simp
  from DeleteCert_validation_order[of "''5''" "testPrinter deletePage keep" "start [''1'']" "[''1'']" "[''1'']"] g n
  have b: "DeleteCert (testPrinter deletePage keep) ''5'' (start [''1'']) =
     (Inl ErrCertDeleteInvalidID,
      \<lparr>dev = [''1''], trace = trace (start [''1'']) @ [EvGetCertIDs (Inr [''1''])]\<rparr>)"
    by blast
  from a b g n show ?thesis by blast
qed

text \<open>C6 as stated fails for the third validation error: on a device that reports the single
  ID 1, deleting 5 returns \<^verbatim>\<open>errCertDeleteInvalidID\<close> after the certificate IDs were
  fetched from the device.\<close>

theorem DeleteCert_absent_id_counterexample:
  "fst (deleteRun deletePage keep ''5'' [''1'']) = Inl ErrCertDeleteInvalidID \<and>
   trace (snd (deleteRun deletePage keep ''5'' [''1''])) = [EvGetCertIDs (Inr [''1''])] \<and>
   trace (snd (deleteRun deletePage keep ''5'' [''1''])) \<noteq> []"
  by (simp add: run_delete_absent)

text \<open>C7, as the code has it. \<^verbatim>\<open>DeleteCert\<close> rejects the sentinel \<^verbatim>\<open>"0"\<close> and leaves the
  world as it was. \<^verbatim>\<open>SetActiveCert\<close> does not look at its ID: for every ID, the sentinel
  included, once the settings page is fetched, its token and its fields are found and the
  request can be made, the run posts the settings form built for that ID. In that form the
  certificate selector field carries the ID, unless an HTTPS checkbox was found under the
  selector's own name: then the \<^verbatim>\<open>Set\<close> of the checkbox, which comes later, replaces the ID
  by \<^verbatim>\<open>"1"\<close>.\<close>

theorem sentinel_targets:
  "DeleteCert p ''0'' w = (Inl ErrCertDeleteInvalidID, w) \<and>
   (getHttpSettings p w = (Inr b, w1) \<and> parseBodyForCSRFToken p b = Inr tok \<and>
    parseHttpSettingsFormFields b = Inr f \<and> ParseRequestURI p (baseUrl p) = Inr u \<and>
    NewRequestURL p POST (u\<lparr>path := urlHttpCertServerSettings\<rparr>) = Inr u' \<longrightarrow>
      \<lparr>reqMethod = POST, reqUrl = u',
        contentType = ''application/x-www-form-urlencoded'',
        reqBody = UrlEncoded (activateForm tok f cid)\<rparr>
      \<in> set (posts (trace (snd (SetActiveCert p cid w)))) \<and>
      certSelectField f \<noteq> [] \<and>
      map_of (activateForm tok f cid) (certSelectField f) =
        Some (if httpsWebField f = certSelectField f \<or> httpsIppField f = certSelectField f
              then ''1'' else cid))"
proof (intro conjI impI)
  show "DeleteCert p ''0'' w = (Inl ErrCertDeleteInvalidID, w)"
    by (simp add: DeleteCert_def failWith_def)
next
  assume a: "getHttpSettings p w = (Inr b, w1) \<and> parseBodyForCSRFToken p b = Inr tok \<and>
    parseHttpSettingsFormFields b = Inr f \<and> ParseRequestURI p (baseUrl p) = Inr u \<and>
    NewRequestURL p POST (u\<lparr>path := urlHttpCertServerSettings\<rparr>) = Inr u'"
  then show "\<lparr>reqMethod = POST, reqUrl = u',
        contentType = ''application/x-www-form-urlencoded'',
        reqBody = UrlEncoded (activateForm tok f cid)\<rparr>
      \<in> set (posts (trace (snd (SetActiveCert p cid w))))"
    using SetActiveCert_submits[of p w b w1 tok f u u' cid] by blast
  from a show n: "certSelectField f \<noteq> []"
    using parseHttp_select_nonempty[of b f] by blast
  show "map_of (activateForm tok f cid) (certSelectField f) =
        Some (if httpsWebField f = certSelectField f \<or> httpsIppField f = certSelectField f
              then ''1'' else cid)"
    using n by (simp add: activateForm_select)
qed

text \<open>The settings page of the specification and the sentinel: the form that is posted sets the
  selector \<^verbatim>\<open>Bb23\<close> to \<^verbatim>\<open>"0"\<close>. On the page whose checkbox bears the selector's name
  the form that is posted for the ID 7 sets \<^verbatim>\<open>Bb23\<close> to \<^verbatim>\<open>"1"\<close>.\<close>

theorem sentinel_targets_witness:
  "DeleteCert (testPrinter settingsPage keep) ''0'' (start [''1'']) = (Inl ErrCertDeleteInvalidID, start [''1'']) \<and>
   getHttpSettings (testPrinter settingsPage keep) (start [''1'']) =
     (Inr settingsPage,
      \<lparr>dev = [''1''], trace = [EvDo (getReq ''/net/net/certificate/http.html'' []) (ok200 settingsPage)]\<rparr>) \<and>
   parseBodyForCSRFToken (testPrinter settingsPage keep) settingsPage = Inr ''tok'' \<and>
   parseHttpSettingsFormFields settingsPage =
     Inr \<lparr>certSelectField = ''Bb23'', httpsWebField = ''Ba8c'', httpsIppField = ''Ba9e''\<rparr> \<and>
   ParseRequestURI (testPrinter settingsPage keep) (baseUrl (testPrinter settingsPage keep)) =
     Inr \<lparr>host = ''http://printer'', path = [], rawQuery = []\<rparr> \<and>
   NewRequestURL (testPrinter settingsPage keep) POST
     (\<lparr>host = ''http://printer'', path = [], rawQuery = []\<rparr>\<lparr>path := urlHttpCertServerSettings\<rparr>) =
     Inr \<lparr>host = ''http://printer'', path = ''/net/net/certificate/http.html'', rawQuery = []\<rparr> \<and>
   postReq ''/net/net/certificate/http.html'' ''application/x-www-form-urlencoded''
     (UrlEncoded [(''pageid'', ''326''), (''CSRFToken'', ''tok''), (''Bb23'', ''0''),
                  (''Ba8c'', ''1''), (''Ba9e'', ''1'')])
     \<in> set (posts (trace (snd (SetActiveCert (testPrinter settingsPage keep) ''0'' (start [''1''])))))
   \<and> map_of (activateForm ''tok''
       \<lparr>certSelectField = ''Bb23'', httpsWebField = ''Ba8c'', httpsIppField = ''Ba9e''\<rparr> ''0'') ''Bb23''
     = Some ''0'' \<and>
   getHttpSettings (testPrinter settingsPageSameName keep) (start [''1'']) =
     (Inr settingsPageSameName,
      \<lparr>dev = [''1''], trace = [EvDo (getReq ''/net/net/certificate/http.html'' []) (ok200 settingsPageSameName)]\<rparr>) \<and>
   parseHttpSettingsFormFields settingsPageSameName =
     Inr \<lparr>certSelectField = ''Bb23'', httpsWebField = ''Bb23'', httpsIppField = []\<rparr> \<and>
   postReq ''/net/net/certificate/http.html'' ''application/x-www-form-urlencoded''
     (UrlEncoded [(''pageid'', ''326''), (''CSRFToken'', ''tok''), (''Bb23'', ''1'')])
     \<in> set (posts (trace (snd (SetActiveCert (testPrinter settingsPageSameName keep) ''7'' (start [''1''])))))
   \<and> map_of (activateForm ''tok''
       \<lparr>certSelectField = ''Bb23'', httpsWebField = ''Bb23'', httpsIppField = []\<rparr> ''7'') ''Bb23''
     = Some ''1''"
proof -
  let ?p = "testPrinter settingsPage keep"
  let ?q = "testPrinter settingsPageSameName keep"
  let ?f = "\<lparr>certSelectField = ''Bb23'', httpsWebField = ''Ba8c'', httpsIppField = ''Ba9e''\<rparr>"
  let ?g = "\<lparr>certSelectField = ''Bb23'', httpsWebField = ''Bb23'', httpsIppField = []\<rparr>"
  let ?u = "\<lparr>host = ''http://printer'', path = [], rawQuery = []\<rparr>"
  let ?u' = "\<lparr>host = ''http://printer'', path = ''/net/net/certificate/http.html'', rawQuery = []\<rparr>"
  let ?w1 = "\<lparr>dev = [''1''], trace = [EvDo (getReq ''/net/net/certificate/http.html'' []) (ok200 settingsPage)]\<rparr>"
  let ?w2 = "\<lparr>dev = [''1''], trace = [EvDo (getReq ''/net/net/certificate/http.html'' []) (ok200 settingsPageSameName)]\<rparr>"
  have g: "getHttpSettings ?p (start [''1'']) = (Inr settingsPage, ?w1)"
    and g2: "getHttpSettings ?q (start [''1'']) = (Inr settingsPageSameName, ?w2)"
    by (simp_all add: run_defs getReq_def ok200_def)
  have t: "parseBodyForCSRFToken ?p settingsPage = Inr ''tok''"
    and u: "ParseRequestURI ?p (baseUrl ?p) = Inr ?u"
    and n: "NewRequestURL ?p POST (?u\<lparr>path := urlHttpCertServerSettings\<rparr>) = Inr ?u'"
    and t2: "parseBodyForCSRFToken ?q settingsPageSameName = Inr ''tok''"
    and u2: "ParseRequestURI ?q (baseUrl ?q) = Inr ?u"
    and n2: "NewRequestURL ?q POST (?u\<lparr>path := urlHttpCertServerSettings\<rparr>) = Inr ?u'"
    by (simp_all add: testPrinter_def parsedString_def urlHttpCertServerSettings_def)
  note th = sentinel_targets[of ?p "start [''1'']" settingsPage ?w1 "''tok''" ?f ?u ?u' "''0''"]
  note th2 = sentinel_targets[of ?q "start [''1'']" settingsPageSameName ?w2 "''tok''" ?g ?u ?u' "''7''"]
  from th have d: "DeleteCert ?p ''0'' (start [''1'']) = (Inl ErrCertDeleteInvalidID, start [''1''])"
    by blast
  from th g t parse_settingsPage u n
  have a: "\<lparr>reqMethod = POST, reqUrl = ?u',
        contentType = ''application/x-www-form-urlencoded'',
        reqBody = UrlEncoded (activateForm ''tok'' ?f ''0'')\<rparr>
      \<in> set (posts (trace (snd (SetActiveCert ?p ''0'' (start [''1''])))))"
    and b: "map_of (activateForm ''tok'' ?f ''0'') (certSelectField ?f) =
        Some (if httpsWebField ?f = certSelectField ?f \<or> httpsIppField ?f = certSelectField ?f
              then ''1'' else ''0'')"
    by blast+
  from th2 g2 t2 parse_settingsPageSameName u2 n2
  have a2: "\<lparr>reqMethod = POST, reqUrl = ?u',
        contentType = ''application/x-www-form-urlencoded'',
        reqBody = UrlEncoded (activateForm ''tok'' ?g ''7'')\<rparr>
      \<in> set (posts (trace (snd (SetActiveCert ?q ''7'' (start [''1''])))))"
    and b2: "map_of (activateForm ''tok'' ?g ''7'') (certSelectField ?g) =
        Some (if httpsWebField ?g = certSelectField ?g \<or> httpsIppField ?g = certSelectField ?g
              then ''1'' else ''7'')"
    by blast+
  from a have a': "postReq ''/net/net/certificate/http.html'' ''application/x-www-form-urlencoded''
     (UrlEncoded [(''pageid'', ''326''), (''CSRFToken'', ''tok''), (''Bb23'', ''0''),
                  (''Ba8c'', ''1''), (''Ba9e'', ''1'')])
     \<in> set (posts (trace (snd (SetActiveCert ?p ''0'' (start [''1''])))))"
    by (simp add: postReq_def activateForm_def valuesSet_def)
  from a2 have a2': "postReq ''/net/net/certificate/http.html'' ''application/x-www-form-urlencoded''
     (UrlEncoded [(''pageid'', ''326''), (''CSRFToken'', ''tok''), (''Bb23'', ''1'')])
     \<in> set (posts (trace (snd (SetActiveCert ?q ''7'' (start [''1''])))))"
    by (simp add: postReq_def activateForm_def valuesSet_def)
  from b have b': "map_of (activateForm ''tok'' ?f ''0'') ''Bb23'' = Some ''0''" by simp
  from b2 have b2': "map_of (activateForm ''tok'' ?g ''7'') ''Bb23'' = Some ''1''" by simp
  from d g t parse_settingsPage u n a' b' g2 parse_settingsPageSameName a2' b2'
  show ?thesis by blast
qed

text \<open>C7 as stated fails for \<^verbatim>\<open>SetActiveCert\<close>: called with \<^verbatim>\<open>"0"\<close> it succeeds, and the
  first of its two forms sets the certificate selector \<^verbatim>\<open>Bb23\<close> to \<^verbatim>\<open>"0"\<close>.\<close>

theorem SetActiveCert_sentinel_counterexample:
  "fst (activateRun settingsPage ''0'' [''1'']) = Inr () \<and>
   map reqBody (posts (trace (snd (activateRun settingsPage ''0'' [''1''])))) =
     [UrlEncoded [(''pageid'', ''326''), (''CSRFToken'', ''tok''), (''Bb23'', ''0''),
                  (''Ba8c'', ''1''), (''Ba9e'', ''1'')],
      UrlEncoded [(''pageid'', ''326''), (''CSRFToken'', ''tok''), (''http_page_mode'', ''5'')]]"
  by (simp add: run_activate_sentinel getReq_def postReq_def)

text \<open>C9, as the code has it. When the loop over the hidden matches of a body collects fewer
  than two names (none or one), no companion role is assigned. \<^verbatim>\<open>parseDeleteFormFields\<close>
  then returns success with both \<open>hiddenField1\<close> and \<open>hiddenField2\<close> empty.
  \<^verbatim>\<open>parseImportFormFields\<close> can still return an error: the file error when no file input
  is found, else the password error when no password input is found, else success with both
  companion fields empty. In a run of \<^verbatim>\<open>DeleteCert\<close> or \<^verbatim>\<open>UploadNewCert\<close>, a request sent
  right after the response that carried such a body is a POST of the form built from that
  body, and the form has the fixed fields only. When the listing of the IDs and the GET of
  the page succeed with such a body, the token is found and the request can be made,
  \<^verbatim>\<open>DeleteCert\<close> posts its first form without companion fields; so does \<^verbatim>\<open>UploadNewCert\<close>
  when moreover the file and password inputs are found.\<close>

theorem few_hidden_fields:
  "(fewHidden ''hidden_certificate_idx'' b \<longrightarrow>
      parseDeleteFormFields b = Inr \<lparr>hiddenField1 = [], hiddenField2 = []\<rparr>) \<and>
   (fewHidden ''hidden_cert_import_password'' bi \<longrightarrow>
      parseImportFormFields bi =
        (if FindSubmatch fileRegex bi = []
         then Inl (ErrNew ''printer: upload: failed to find file input field name'')
         else if FindSubmatch passwordRegex bi = []
         then Inl (ErrNew ''printer: upload: failed to find password input field name'')
         else Inr \<lparr>impHiddenField1 = [], impHiddenField2 = [],
                   fileField = pick (FindSubmatch fileRegex bi) 1 2,
                   passwordField = pick (FindSubmatch passwordRegex bi) 1 2\<rparr>)) \<and>
   (DeleteCert p cid (start d) = (r, w') \<and>
    trace w' = pre @ EvDo req (Inr resp) # EvDo preq pr # rest \<and>
    readAll resp = Inr b \<and> fewHidden ''hidden_certificate_idx'' b \<longrightarrow>
      reqMethod preq = POST \<and>
      (\<exists>t c. parseBodyForCSRFToken p b = Inr t \<and> (c = ''1'' \<or> c = ''2'') \<and>
         reqBody preq = UrlEncoded (deleteValues t c cid))) \<and>
   (UploadNewCert pu keyPem certPem (start du) = (ru, wu) \<and>
    trace wu = preu @ EvDo requ (Inr respu) # EvDo prequ pru # restu \<and>
    readAll respu = Inr bi \<and> fewHidden ''hidden_cert_import_password'' bi \<longrightarrow>
      reqMethod prequ = POST \<and>
      (\<exists>t pf. parseBodyForCSRFToken pu bi = Inr t \<and>
         reqBody prequ = Multipart (importValues t (pick (FindSubmatch fileRegex bi) 1 2)
                                      (pick (FindSubmatch passwordRegex bi) 1 2) pf))) \<and>
   (cid \<noteq> [] \<and> cid \<noteq> ''0'' \<and> callGetCertIDs p (start d) = (Inr ids, w1) \<and> cid \<in> set ids \<and>
    doRequest p GET urlCertDelete NoBody (setQuery ''idx'' cid) w1 = (Inr gresp, w2) \<and>
    readAll gresp = Inr b \<and> statusCode gresp = 200 \<and>
    parseBodyForCSRFToken p b = Inr tok \<and> fewHidden ''hidden_certificate_idx'' b \<and>
    ParseRequestURI p (baseUrl p) = Inr u \<and>
    NewRequestURL p POST (u\<lparr>path := urlCertDelete\<rparr>) = Inr u' \<longrightarrow>
      \<lparr>reqMethod = POST, reqUrl = u', contentType = ''application/x-www-form-urlencoded'',
        reqBody = UrlEncoded (deleteValues tok ''1'' cid)\<rparr>
      \<in> set (posts (trace (snd (DeleteCert p cid (start d)))))) \<and>
   (makeModernPfx pu keyPem certPem [] = Inr pfx \<and>
    callGetCertIDs pu (start du) = (Inr orig, wu1) \<and>
    doRequest pu GET urlCertImport NoBody (\<lambda>req. req) wu1 = (Inr grespu, wu2) \<and>
    readAll grespu = Inr bi \<and> statusCode grespu = 200 \<and>
    parseBodyForCSRFToken pu bi = Inr toku \<and> fewHidden ''hidden_cert_import_password'' bi \<and>
    FindSubmatch fileRegex bi \<noteq> [] \<and> FindSubmatch passwordRegex bi \<noteq> [] \<and>
    ParseRequestURI pu (baseUrl pu) = Inr uu \<and>
    NewRequestURL pu POST (uu\<lparr>path := urlCertImport\<rparr>) = Inr uu' \<longrightarrow>
      \<lparr>reqMethod = POST, reqUrl = uu', contentType = ''multipart/form-data'',
        reqBody = Multipart (importValues toku (pick (FindSubmatch fileRegex bi) 1 2)
                               (pick (FindSubmatch passwordRegex bi) 1 2) pfx)\<rparr>
      \<in> set (posts (trace (snd (UploadNewCert pu keyPem certPem (start du))))))"
proof (intro conjI impI)
  assume "fewHidden ''hidden_certificate_idx'' b"
  then show "parseDeleteFormFields b = Inr \<lparr>hiddenField1 = [], hiddenField2 = []\<rparr>"
    by (rule parseDelete_few)
next
  assume "fewHidden ''hidden_cert_import_password'' bi"
  then show "parseImportFormFields bi =
        (if FindSubmatch fileRegex bi = []
         then Inl (ErrNew ''printer: upload: failed to find file input field name'')
         else if FindSubmatch passwordRegex bi = []
         then Inl (ErrNew ''printer: upload: failed to find password input field name'')
         else Inr \<lparr>impHiddenField1 = [], impHiddenField2 = [],
                   fileField = pick (FindSubmatch fileRegex bi) 1 2,
                   passwordField = pick (FindSubmatch passwordRegex bi) 1 2\<rparr>)"
    by (subst parseImport_exact) simp
next
  assume a: "DeleteCert p cid (start d) = (r, w') \<and>
    trace w' = pre @ EvDo req (Inr resp) # EvDo preq pr # rest \<and>
    readAll resp = Inr b \<and> fewHidden ''hidden_certificate_idx'' b"
  from DeleteCert_form_after[of p cid d r w' pre req resp preq pr rest b] a
  show "reqMethod preq = POST"
    and "\<exists>tok control. parseBodyForCSRFToken p b = Inr tok \<and> (control = ''1'' \<or> control = ''2'') \<and>
         reqBody preq = UrlEncoded (deleteValues tok control cid)"
    by blast+
next
  assume a: "UploadNewCert pu keyPem certPem (start du) = (ru, wu) \<and>
    trace wu = preu @ EvDo requ (Inr respu) # EvDo prequ pru # restu \<and>
    readAll respu = Inr bi \<and> fewHidden ''hidden_cert_import_password'' bi"
  from UploadNewCert_form_after[of pu keyPem certPem du ru wu preu requ respu prequ pru restu bi] a
  show "reqMethod prequ = POST"
    and "\<exists>t pf. parseBodyForCSRFToken pu bi = Inr t \<and>
         reqBody prequ = Multipart (importValues t (pick (FindSubmatch fileRegex bi) 1 2)
                                      (pick (FindSubmatch passwordRegex bi) 1 2) pf)"
    by blast+
next
  assume a: "cid \<noteq> [] \<and> cid \<noteq> ''0'' \<and> callGetCertIDs p (start d) = (Inr ids, w1) \<and> cid \<in> set ids \<and>
    doRequest p GET urlCertDelete NoBody (setQuery ''idx'' cid) w1 = (Inr gresp, w2) \<and>
    readAll gresp = Inr b \<and> statusCode gresp = 200 \<and>
    parseBodyForCSRFToken p b = Inr tok \<and> fewHidden ''hidden_certificate_idx'' b \<and>
    ParseRequestURI p (baseUrl p) = Inr u \<and>
    NewRequestURL p POST (u\<lparr>path := urlCertDelete\<rparr>) = Inr u'"
  from DeleteCert_submits[of cid p "start d" ids w1 gresp w2 b tok u u'] a
  show "\<lparr>reqMethod = POST, reqUrl = u', contentType = ''application/x-www-form-urlencoded'',
        reqBody = UrlEncoded (deleteValues tok ''1'' cid)\<rparr>
      \<in> set (posts (trace (snd (DeleteCert p cid (start d)))))"
    by blast
next
  assume a: "makeModernPfx pu keyPem certPem [] = Inr pfx \<and>
    callGetCertIDs pu (start du) = (Inr orig, wu1) \<and>
    doRequest pu GET urlCertImport NoBody (\<lambda>req. req) wu1 = (Inr grespu, wu2) \<and>
    readAll grespu = Inr bi \<and> statusCode grespu = 200 \<and>
    parseBodyForCSRFToken pu bi = Inr toku \<and> fewHidden ''hidden_cert_import_password'' bi \<and>
    FindSubmatch fileRegex bi \<noteq> [] \<and> FindSubmatch passwordRegex bi \<noteq> [] \<and>
    ParseRequestURI pu (baseUrl pu) = Inr uu \<and>
    NewRequestURL pu POST (uu\<lparr>path := urlCertImport\<rparr>) = Inr uu'"
  from UploadNewCert_submits[of pu keyPem certPem pfx "start du" orig wu1 grespu wu2 bi toku uu uu'] a
  show "\<lparr>reqMethod = POST, reqUrl = uu', contentType = ''multipart/form-data'',
        reqBody = Multipart (importValues toku (pick (FindSubmatch fileRegex bi) 1 2)
                               (pick (FindSubmatch passwordRegex bi) 1 2) pfx)\<rparr>
      \<in> set (posts (trace (snd (UploadNewCert pu keyPem certPem (start du)))))"
    by blast
qed

text \<open>A delete page with one hidden field and an import page with one hidden field, a file
  input and a password input: both discoverers succeed with no companion field, and the
  forms that the two runs post carry the fixed fields only.\<close>

theorem few_hidden_fields_witness:
  "fewHidden ''hidden_certificate_idx'' deletePage1 \<and>
   parseDeleteFormFields deletePage1 = Inr \<lparr>hiddenField1 = [], hiddenField2 = []\<rparr> \<and>
   fewHidden ''hidden_cert_import_password'' importPage \<and>
   FindSubmatch fileRegex importPage \<noteq> [] \<and> FindSubmatch passwordRegex importPage \<noteq> [] \<and>
   parseImportFormFields importPage =
     Inr \<lparr>impHiddenField1 = [], impHiddenField2 = [], fileField = ''Ba40'', passwordField = ''Ba41''\<rparr> \<and>
   trace (snd (deleteRun deletePage1 drop2 ''2'' [''1'', ''2'', ''3''])) =
     [EvGetCertIDs (Inr [''1'', ''2'', ''3''])] @
     EvDo (getReq urlCertDelete [(''idx'', ''2'')]) (ok200 deletePage1) #
     EvDo (postReq urlCertDelete ''application/x-www-form-urlencoded''
            (UrlEncoded (deleteValues ''tok'' ''1'' ''2''))) (ok200 deletePage1) #
     [EvDo (postReq urlCertDelete ''application/x-www-form-urlencoded''
            (UrlEncoded (deleteValues ''tok'' ''2'' ''2''))) (ok200 deletePage1),
      EvSleep 10, EvGetCertIDs (Inr [''1'', ''3''])] \<and>
   postReq urlCertDelete ''application/x-www-form-urlencoded''
       (UrlEncoded (deleteValues ''tok'' ''1'' ''2''))
     \<in> set (posts (trace (snd (deleteRun deletePage1 drop2 ''2'' [''1'', ''2'', ''3''])))) \<and>
   trace (snd (uploadRun importPage add4 [''1'', ''2''])) =
     [EvGetCertIDs (Inr [''1'', ''2''])] @
     EvDo (getReq urlCertImport []) (ok200 importPage) #
     EvDo (postReq urlCertImport ''multipart/form-data''
            (Multipart (importValues ''tok'' ''Ba40'' ''Ba41'' ''keycert''))) (ok200 importPage) #
     [EvSleep 10, EvGetCertIDs (Inr [''1'', ''2'', ''4''])] \<and>
   postReq urlCertImport ''multipart/form-data''
       (Multipart (importValues ''tok'' ''Ba40'' ''Ba41'' ''keycert''))
     \<in> set (posts (trace (snd (uploadRun importPage add4 [''1'', ''2'']))))"
proof -
  let ?PD = "testPrinter deletePage1 drop2"
  let ?PU = "testPrinter importPage add4"
  let ?runD = "deleteRun deletePage1 drop2 ''2'' [''1'', ''2'', ''3'']"
  let ?runU = "uploadRun importPage add4 [''1'', ''2'']"
  let ?respD = "\<lparr>statusCode = 200, readAll = Inr deletePage1\<rparr>"
  let ?respU = "\<lparr>statusCode = 200, readAll = Inr importPage\<rparr>"
  let ?getD = "getReq urlCertDelete [(''idx'', ''2'')]"
  let ?getU = "getReq urlCertImport []"
  let ?formA = "postReq urlCertDelete ''application/x-www-form-urlencoded''
                (UrlEncoded (deleteValues ''tok'' ''1'' ''2''))"
  let ?formB = "postReq urlCertDelete ''application/x-www-form-urlencoded''
                (UrlEncoded (deleteValues ''tok'' ''2'' ''2''))"
  let ?formU = "postReq urlCertImport ''multipart/form-data''
                (Multipart (importValues ''tok'' ''Ba40'' ''Ba41'' ''keycert''))"
  let ?base = "\<lparr>host = ''http://printer'', path = [], rawQuery = []\<rparr>"
  let ?wdA = "\<lparr>dev = [''1'', ''2'', ''3''], trace = [EvGetCertIDs (Inr [''1'', ''2'', ''3''])]\<rparr>"
  let ?wdB = "\<lparr>dev = [''1'', ''2'', ''3''], trace = [EvGetCertIDs (Inr [''1'', ''2'', ''3'']), EvDo ?getD (Inr ?respD)]\<rparr>"
  let ?wuA = "\<lparr>dev = [''1'', ''2''], trace = [EvGetCertIDs (Inr [''1'', ''2''])]\<rparr>"
  let ?wuB = "\<lparr>dev = [''1'', ''2''], trace = [EvGetCertIDs (Inr [''1'', ''2'']), EvDo ?getU (Inr ?respU)]\<rparr>"
  note th = few_hidden_fields[where b = deletePage1 and bi = importPage
      and p = ?PD and cid = "''2''" and d = "[''1'', ''2'', ''3'']" and r = "fst ?runD" and w' = "snd ?runD"
      and pre = "[EvGetCertIDs (Inr [''1'', ''2'', ''3''])]" and req = ?getD and resp = ?respD
      and preq = ?formA and pr = "ok200 deletePage1"
      and rest = "[EvDo ?formB (ok200 deletePage1), EvSleep 10, EvGetCertIDs (Inr [''1'', ''3''])]"
      and pu = ?PU and keyPem = "''key''" and certPem = "''cert''" and du = "[''1'', ''2'']"
      and ru = "fst ?runU" and wu = "snd ?runU"
      and preu = "[EvGetCertIDs (Inr [''1'', ''2''])]" and requ = ?getU and respu = ?respU
      and prequ = ?formU and pru = "ok200 importPage"
      and restu = "[EvSleep 10, EvGetCertIDs (Inr [''1'', ''2'', ''4''])]"
      and ids = "[''1'', ''2'', ''3'']" and ?w1.0 = ?wdA and gresp = ?respD and ?w2.0 = ?wdB
      and tok = "''tok''" and u = ?base
      and u' = "\<lparr>host = ''http://printer'', path = urlCertDelete, rawQuery = []\<rparr>"
      and pfx = "''keycert''" and orig = "[''1'', ''2'']" and ?wu1.0 = ?wuA and grespu = ?respU
      and ?wu2.0 = ?wuB and toku = "''tok''" and uu = ?base
      and uu' = "\<lparr>host = ''http://printer'', path = urlCertImport, rawQuery = []\<rparr>"]
  have rd: "DeleteCert ?PD ''2'' (start [''1'', ''2'', ''3'']) = (fst ?runD, snd ?runD)"
    and ru: "UploadNewCert ?PU ''key'' ''cert'' (start [''1'', ''2'']) = (fst ?runU, snd ?runU)"
    by (simp_all add: deleteRun_def uploadRun_def)
  have td: "trace (snd ?runD) = [EvGetCertIDs (Inr [''1'', ''2'', ''3''])] @
       EvDo ?getD (Inr ?respD) # EvDo ?formA (ok200 deletePage1) #
       [EvDo ?formB (ok200 deletePage1), EvSleep 10, EvGetCertIDs (Inr [''1'', ''3''])]"
    and tu: "trace (snd ?runU) = [EvGetCertIDs (Inr [''1'', ''2''])] @
       EvDo ?getU (Inr ?respU) # EvDo ?formU (ok200 importPage) #
       [EvSleep 10, EvGetCertIDs (Inr [''1'', ''2'', ''4''])]"
    by (simp_all add: run_delete_one_hidden run_upload_add4 ok200_def importValues_def)
  have ra: "readAll ?respD = Inr deletePage1" "readAll ?respU = Inr importPage"
    "statusCode ?respD = 200" "statusCode ?respU = 200" by simp_all
  have cd: "''2'' \<noteq> []" "''2'' \<noteq> ''0''" "''2'' \<in> set [''1'', ''2'', ''3'']" by simp_all
  have io: "callGetCertIDs ?PD (start [''1'', ''2'', ''3'']) = (Inr [''1'', ''2'', ''3''], ?wdA)"
    "doRequest ?PD GET urlCertDelete NoBody (setQuery ''idx'' ''2'') ?wdA = (Inr ?respD, ?wdB)"
    "callGetCertIDs ?PU (start [''1'', ''2'']) = (Inr [''1'', ''2''], ?wuA)"
    "doRequest ?PU GET urlCertImport NoBody (\<lambda>req. req) ?wuA = (Inr ?respU, ?wuB)"
    by (simp_all add: run_defs getReq_def valuesSet_def)
  have co: "parseBodyForCSRFToken ?PD deletePage1 = Inr ''tok''"
    "ParseRequestURI ?PD (baseUrl ?PD) = Inr ?base"
    "NewRequestURL ?PD POST (?base\<lparr>path := urlCertDelete\<rparr>) =
       Inr \<lparr>host = ''http://printer'', path = urlCertDelete, rawQuery = []\<rparr>"
    "makeModernPfx ?PU ''key'' ''cert'' [] = Inr ''keycert''"
    "parseBodyForCSRFToken ?PU importPage = Inr ''tok''"
    "ParseRequestURI ?PU (baseUrl ?PU) = Inr ?base"
    "NewRequestURL ?PU POST (?base\<lparr>path := urlCertImport\<rparr>) =
       Inr \<lparr>host = ''http://printer'', path = urlCertImport, rawQuery = []\<rparr>"
    by (simp_all add: testPrinter_def parsedString_def urlCertDelete_def urlCertImport_def)
  from th few_deletePage1
  have c1: "parseDeleteFormFields deletePage1 = Inr \<lparr>hiddenField1 = [], hiddenField2 = []\<rparr>" by blast
  from th few_importPage find_importPage
  have c2: "parseImportFormFields importPage =
     Inr \<lparr>impHiddenField1 = [], impHiddenField2 = [],
          fileField = pick (FindSubmatch fileRegex importPage) 1 2,
          passwordField = pick (FindSubmatch passwordRegex importPage) 1 2\<rparr>" by simp
  from th rd td ra(1) few_deletePage1
  have c3: "reqMethod ?formA = POST" by blast
  from th ru tu ra(2) few_importPage
  have c4: "reqMethod ?formU = POST" by blast
  from th cd io(1,2) ra(1,3) co(1-3) few_deletePage1
  have c5: "\<lparr>reqMethod = POST, reqUrl = \<lparr>host = ''http://printer'', path = urlCertDelete, rawQuery = []\<rparr>,
        contentType = ''application/x-www-form-urlencoded'',
        reqBody = UrlEncoded (deleteValues ''tok'' ''1'' ''2'')\<rparr>
      \<in> set (posts (trace (snd (DeleteCert ?PD ''2'' (start [''1'', ''2'', ''3''])))))"
    by blast
  from th co(4-7) io(3,4) ra(2,4) few_importPage find_importPage
  have c6: "\<lparr>reqMethod = POST, reqUrl = \<lparr>host = ''http://printer'', path = urlCertImport, rawQuery = []\<rparr>,
        contentType = ''multipart/form-data'',
        reqBody = Multipart (importValues ''tok'' (pick (FindSubmatch fileRegex importPage) 1 2)
                               (pick (FindSubmatch passwordRegex importPage) 1 2) ''keycert'')\<rparr>
      \<in> set (posts (trace (snd (UploadNewCert ?PU ''key'' ''cert'' (start [''1'', ''2''])))))"
    by blast
  from c5 have c5': "?formA \<in> set (posts (trace (snd ?runD)))"
    by (simp only: postReq_def deleteRun_def)
  from c6 have c6': "?formU \<in> set (posts (trace (snd ?runU)))"
    by (simp only: postReq_def uploadRun_def pick_importPage)
  from c2 have c2': "parseImportFormFields importPage =
     Inr \<lparr>impHiddenField1 = [], impHiddenField2 = [], fileField = ''Ba40'', passwordField = ''Ba41''\<rparr>"
    by (simp only: pick_importPage)
  from c1 c2' c5' c6' few_deletePage1 few_importPage find_importPage td tu
  show ?thesis by (simp only: ok200_def simp_thms)
qed

text \<open>C9 as stated fails for the import page: the loop collects the single name \<^verbatim>\<open>Bb0a\<close> from
  a page that has no file input, and \<^verbatim>\<open>parseImportFormFields\<close> returns an error; the run
  of \<^verbatim>\<open>UploadNewCert\<close> returns that error and posts no form.\<close>

theorem few_hidden_import_counterexample:
  "hiddenLoop ''hidden_cert_import_password'' (FindAllSubmatch hiddenRegex importPageNoFile) [] = [''Bb0a''] \<and>
   fewHidden ''hidden_cert_import_password'' importPageNoFile \<and>
   parseImportFormFields importPageNoFile =
     Inl (ErrNew ''printer: upload: failed to find file input field name'') \<and>
   fst (uploadRun importPageNoFile add4 [''1'']) =
     Inl (ErrNew ''printer: upload: failed to find file input field name'') \<and>
   posts (trace (snd (uploadRun importPageNoFile add4 [''1'']))) = []"
  by (simp add: hidden_importPageNoFile few_importPageNoFile parse_importPageNoFile
      run_upload_nofile getReq_def)

text \<open>C10. The loop of \<^verbatim>\<open>UploadNewCert\<close> counts the entries of the post-snapshot, not the
  distinct IDs: its count is the number of entries of \<open>post\<close> whose ID is absent from
  \<open>orig\<close>. For every run that took the baseline \<open>orig\<close>, posted the upload, slept the
  settle delay and took the post-snapshot \<open>post\<close>: if an ID absent from \<open>orig\<close> stands
  at two positions of \<open>post\<close>, the count is greater than the number of distinct new IDs
  and greater than one, and the run, which returns the ambiguity error whenever the count
  exceeds one, returns the ambiguity error.\<close>

theorem UploadNewCert_same_id_twice:
  assumes "UploadNewCert p keyPem certPem (start d) = (r, w')"
    and "hd (trace w') = EvGetCertIDs (Inr orig)"
    and "EvSleep 10 \<in> set (trace w')"
    and "last (trace w') = EvGetCertIDs (Inr post)"
    and "i < j" and "j < length post" and "post ! i = x" and "post ! j = x" and "x \<notin> set orig"
  shows "snd (newIdLoop orig post ([], 0)) = length (filter (\<lambda>y. y \<notin> set orig) post) \<and>
         card (set post - set orig) < snd (newIdLoop orig post ([], 0)) \<and>
         snd (newIdLoop orig post ([], 0)) > 1 \<and>
         r = (if snd (newIdLoop orig post ([], 0)) > 1 then Inl errDeduce
              else Inr (fst (newIdLoop orig post ([], 0)))) \<and>
         r = Inl errDeduce"
proof -
  let ?n = "filter (\<lambda>y. y \<notin> set orig) post"
  have c: "snd (newIdLoop orig post ([], 0)) = length ?n"
    by (simp add: newIdLoop_filter)
  have s: "set ?n = set post - set orig" by auto
  have "card (set ?n) < length ?n"
    using assms(5-9) by (intro repeated_entry[of i j]) auto
  then have k: "card (set post - set orig) < length ?n" by (simp only: s)
  have two: "2 \<le> length ?n"
    using assms(5-9) by (intro two_positions[of i j]) auto
  have r: "r = deduceNewId orig post" by (rule UploadNewCert_settled[OF assms(1-4)])
  have r': "r = (if snd (newIdLoop orig post ([], 0)) > 1 then Inl errDeduce
              else Inr (fst (newIdLoop orig post ([], 0))))"
    unfolding r by (simp add: deduceNewId_def split: prod.splits)
  from c k two r' show ?thesis by simp
qed

text \<open>Baseline 1, and 1, 4, 4 after the upload: one new ID, a count of two, and the ambiguity
  error.\<close>

theorem UploadNewCert_same_id_twice_witness:
  "hd (trace (snd (uploadRun importPage add4twice [''1'']))) = EvGetCertIDs (Inr [''1'']) \<and>
   EvSleep 10 \<in> set (trace (snd (uploadRun importPage add4twice [''1'']))) \<and>
   last (trace (snd (uploadRun importPage add4twice [''1'']))) = EvGetCertIDs (Inr [''1'', ''4'', ''4'']) \<and>
   (1::nat) < 2 \<and> (2::nat) < length [''1'', ''4'', ''4''] \<and>
   [''1'', ''4'', ''4''] ! 1 = ''4'' \<and> [''1'', ''4'', ''4''] ! 2 = ''4'' \<and> ''4'' \<notin> set [''1''] \<and>
   snd (newIdLoop [''1''] [''1'', ''4'', ''4''] ([], 0)) = 2 \<and>
   card (set [''1'', ''4'', ''4''] - set [''1'']) = 1 \<and>
   fst (uploadRun importPage add4twice [''1'']) = Inl errDeduce"
proof -
  let ?run = "uploadRun importPage add4twice [''1'']"
  have run: "UploadNewCert (testPrinter importPage add4twice) ''key'' ''cert'' (start [''1'']) = (fst ?run, snd ?run)"
    by (simp add: uploadRun_def)
  have h1: "hd (trace (snd ?run)) = EvGetCertIDs (Inr [''1''])"
    and h2: "EvSleep 10 \<in> set (trace (snd ?run))"
    and h3: "last (trace (snd ?run)) = EvGetCertIDs (Inr [''1'', ''4'', ''4''])"
    by (simp_all add: run_upload_add4twice1)
  have p: "(1::nat) < 2" "(2::nat) < length [''1'', ''4'', ''4'']"
    "[''1'', ''4'', ''4''] ! 1 = ''4''" "[''1'', ''4'', ''4''] ! 2 = ''4''" "''4'' \<notin> set [''1'']"
    by simp_all
  have f: "length (filter (\<lambda>y. y \<notin> set [''1'']) [''1'', ''4'', ''4'']) = 2" by simp
  have k: "card (set [''1'', ''4'', ''4''] - set [''1'']) = 1"
  proof -
    have "set [''1'', ''4'', ''4''] - set [''1''] = {''4''}" by auto
    then show ?thesis by simp
  qed
  from UploadNewCert_same_id_twice[OF run h1 h2 h3 p]
  have "snd (newIdLoop [''1''] [''1'', ''4'', ''4''] ([], 0)) =
          length (filter (\<lambda>y. y \<notin> set [''1'']) [''1'', ''4'', ''4''])"
    and "fst ?run = Inl errDeduce" by blast+
  with h1 h2 h3 p f k show ?thesis by simp
qed

end
